theory Spec2Isabelle
  imports Complex_Main
begin

section \<open>LinkedInify icon generator (icon-generator.py)\<close>

text \<open>
  The script draws a glyph on a coloured square at a fixed list of sizes and saves each
  image. Everything it does goes through the Pillow imaging library, the font files of the
  machine and the filesystem. None of these is part of the script, so each library or
  system call appears below as a field of an environment record: the field says whether
  the call raises and, for the text measurement, what it returns. The script itself (the
  arithmetic, the order of the calls, the try/except structure, the loop, the file names
  and the printed lines) is translated as written.
\<close>

subsection \<open>Exceptions\<close>

text \<open>
  The handlers of the script tell three classes apart: \<open>except ImportError\<close>,
  \<open>except Exception\<close> and the bare \<open>except:\<close>, which also catches what derives from
  BaseException only (KeyboardInterrupt, SystemExit). A raised exception is therefore one of:
  an instance of ImportError, an instance of Exception that is not an ImportError, an
  instance of BaseException that is not an Exception. The argument is the message,
  \<open>str(e)\<close>.
\<close>

datatype exn = ImportError string | Exception string | BaseException string

subsection \<open>Python numbers: \<open>int(size * 0.4)\<close> and \<open>str(size)\<close>\<close>

text \<open>
  \<open>size * 0.4\<close> converts the integer to a binary64 float and multiplies two floats; each
  step rounds to 53 significant bits, ties to even. A finite float is kept as a pair
  \<open>(m, e)\<close> that stands for \<open>m * 2 ^ e\<close>. \<open>bit_length\<close> is Python's \<open>int.bit_length\<close>,
  here only used on a number that is not negative.
\<close>

function bit_length :: "int \<Rightarrow> nat" where
  "bit_length n = (if n \<le> 0 then 0 else Suc (bit_length (n div 2)))"
  by pat_completeness auto
termination
  by (relation "measure nat") auto

declare bit_length.simps [simp del]

definition round_half_even :: "int \<Rightarrow> nat \<Rightarrow> int" where
  \<comment> \<open>\<open>m / 2 ^ s\<close> for \<open>m \<ge> 0\<close>, rounded to the nearest integer, ties to the even one\<close>
  "round_half_even m s =
     (let q = m div 2 ^ s; r = m mod 2 ^ s
      in if 2 ^ s < 2 * r \<or> (2 * r = 2 ^ s \<and> odd q) then q + 1 else q)"

definition round53 :: "int \<times> int \<Rightarrow> int \<times> int" where
  "round53 f =
     (case f of (m, e) \<Rightarrow>
        let k = bit_length \<bar>m\<bar>
        in if k \<le> 53 then (m, e)
           else (sgn m * round_half_even \<bar>m\<bar> (k - 53), e + int (k - 53)))"

definition float_of_int :: "int \<Rightarrow> exn + int \<times> int" where
  \<comment> \<open>the conversion raises OverflowError when the rounded value does not fit a binary64,
      that is when it reaches \<open>2 ^ 1024\<close>: when it has more than 1024 bits\<close>
  "float_of_int n =
     (case round53 (n, 0) of (m, e) \<Rightarrow>
        if 1024 < int (bit_length \<bar>m\<bar>) + e
        then Inl (Exception ''int too large to convert to float'')
        else Inr (m, e))"

definition float_mul :: "int \<times> int \<Rightarrow> int \<times> int \<Rightarrow> int \<times> int" where
  \<comment> \<open>the exact product, rounded once (the products of this script neither overflow nor
      underflow: one factor is \<open>0.4\<close>, the other an integer below \<open>2 ^ 1024\<close>)\<close>
  "float_mul a b = (case a of (m1, e1) \<Rightarrow> case b of (m2, e2) \<Rightarrow> round53 (m1 * m2, e1 + e2))"

definition float_0_4 :: "int \<times> int" where
  \<comment> \<open>the literal \<open>0.4\<close> is the binary64 number \<open>0x1.999999999999ap-2\<close>\<close>
  "float_0_4 = (7205759403792794, - 54)"

definition int_of_float :: "int \<times> int \<Rightarrow> int" where
  \<comment> \<open>\<open>int(x)\<close> truncates towards zero\<close>
  "int_of_float f =
     (case f of (m, e) \<Rightarrow>
        if 0 \<le> e then m * 2 ^ nat e
        else if 0 \<le> m then m div 2 ^ nat (- e)
        else - ((- m) div 2 ^ nat (- e)))"

definition font_size :: "int \<Rightarrow> exn + int" where
  \<comment> \<open>line 22: \<open>font_size = int(size * 0.4)\<close>\<close>
  "font_size size' =
     (case float_of_int size' of
        Inl err \<Rightarrow> Inl err
      | Inr f \<Rightarrow> Inr (int_of_float (float_mul f float_0_4)))"

fun str_nat :: "nat \<Rightarrow> string" where
  "str_nat n =
     (if n < 10 then [''0123456789'' ! n]
      else str_nat (n div 10) @ [''0123456789'' ! (n mod 10)])"

declare str_nat.simps [simp del]

definition str :: "int \<Rightarrow> string" where
  \<comment> \<open>\<open>str(n)\<close>, as the f-strings format an integer\<close>
  "str n = (if n < 0 then CHR ''-'' # str_nat (nat (- n)) else str_nat (nat n))"

subsection \<open>Images, fonts and the environment\<close>

text \<open>
  An image is what the script asked the library to draw: the arguments of \<open>Image.new\<close>
  and the drawing calls made on it, oldest first. A later call paints over an earlier one.
\<close>

datatype font = FreeTypeFont string int | DefaultFont

datatype draw_op =
    Text "int \<times> int" string string font
  | Rectangle "int list" string int

record image =
  mode :: string
  dimensions :: "int \<times> int"
  color :: string
  ops :: "draw_op list"

text \<open>
  The environment: for each library or system call of the script, whether it raises at
  given arguments. \<open>textbbox\<close> also gives the measured box \<open>(left, top, right, bottom)\<close>,
  in whole pixels. The environment also holds what the script cannot know: which files a
  save that raised leaves behind (the library opens the target before it encodes), the
  text of the operating system's errors for a path that exists, for a path whose directory
  is missing and for a path whose directory is a file, and whether the standard output can
  take a line (\<open>print\<close> raises UnicodeEncodeError on a line it cannot encode).
\<close>

record env =
  pil_importable :: bool
  new_error :: "string \<Rightarrow> int \<times> int \<Rightarrow> string \<Rightarrow> exn option"
  truetype_error :: "string \<Rightarrow> int \<Rightarrow> exn option"
  load_default_error :: "exn option"
  textbbox :: "int \<times> int \<Rightarrow> string \<Rightarrow> font \<Rightarrow> exn + int \<times> int \<times> int \<times> int"
  text_error :: "int \<times> int \<Rightarrow> string \<Rightarrow> font \<Rightarrow> exn option"
  rectangle_error :: "int list \<Rightarrow> int \<Rightarrow> exn option"
  makedirs_error :: "string \<Rightarrow> exn option"
  save_error :: "string \<Rightarrow> string \<Rightarrow> exn option"
  failed_save_files ::
    "string \<Rightarrow> string \<Rightarrow> (string \<rightharpoonup> string \<times> image) \<Rightarrow> (string \<rightharpoonup> string \<times> image)"
  file_exists_message :: "string \<Rightarrow> string"
  no_directory_message :: "string \<Rightarrow> string"
  not_a_directory_message :: "string \<Rightarrow> string"
  print_error :: "string \<Rightarrow> exn option"

definition Image_new :: "env \<Rightarrow> string \<Rightarrow> int \<times> int \<Rightarrow> string \<Rightarrow> exn + image" where
  "Image_new E md sz col =
     (case new_error E md sz col of
        Some err \<Rightarrow> Inl err
      | None \<Rightarrow> Inr \<lparr>mode = md, dimensions = sz, color = col, ops = []\<rparr>)"

definition truetype :: "env \<Rightarrow> string \<Rightarrow> int \<Rightarrow> exn + font" where
  "truetype E name pt =
     (case truetype_error E name pt of
        Some err \<Rightarrow> Inl err
      | None \<Rightarrow> Inr (FreeTypeFont name pt))"

definition load_default :: "env \<Rightarrow> exn + font" where
  "load_default E = (case load_default_error E of Some err \<Rightarrow> Inl err | None \<Rightarrow> Inr DefaultFont)"

definition draw_text :: "env \<Rightarrow> image \<Rightarrow> int \<times> int \<Rightarrow> string \<Rightarrow> string \<Rightarrow> font \<Rightarrow> exn + image" where
  "draw_text E img xy txt fill fnt =
     (case text_error E xy txt fnt of
        Some err \<Rightarrow> Inl err
      | None \<Rightarrow> Inr (img\<lparr>ops := ops img @ [Text xy txt fill fnt]\<rparr>))"

definition draw_rectangle :: "env \<Rightarrow> image \<Rightarrow> int list \<Rightarrow> string \<Rightarrow> int \<Rightarrow> exn + image" where
  "draw_rectangle E img box outline w =
     (case rectangle_error E box w of
        Some err \<Rightarrow> Inl err
      | None \<Rightarrow> Inr (img\<lparr>ops := ops img @ [Rectangle box outline w]\<rparr>))"

subsection \<open>\<open>create_icon\<close>\<close>

definition ICON_SIZES :: "int list" where
  "ICON_SIZES = [72, 96, 128, 144, 152, 192, 384, 512]"

definition glyph :: string where
  \<comment> \<open>the memo emoji U+1F4DD, as its UTF-8 bytes\<close>
  "glyph = [CHR 0xF0, CHR 0x9F, CHR 0x93, CHR 0x9D]"

definition select_font :: "env \<Rightarrow> int \<Rightarrow> exn + font" where
  \<comment> \<open>lines 24 to 32; both \<open>except:\<close> clauses are bare\<close>
  "select_font E pt =
     (case truetype E ''arial.ttf'' pt of
        Inr fnt \<Rightarrow> Inr fnt
      | Inl _ \<Rightarrow>
          (case truetype E ''/System/Library/Fonts/Arial.ttf'' pt of
             Inr fnt \<Rightarrow> Inr fnt
           | Inl _ \<Rightarrow> load_default E))"

definition create_icon :: "env \<Rightarrow> int \<Rightarrow> exn + image" where
  "create_icon E size' =
     (case Image_new E ''RGB'' (size', size') ''#0077b5'' of
        Inl err \<Rightarrow> Inl err
      | Inr img \<Rightarrow>
     (case font_size size' of
        Inl err \<Rightarrow> Inl err
      | Inr pt \<Rightarrow>
     (case select_font E pt of
        Inl err \<Rightarrow> Inl err
      | Inr fnt \<Rightarrow>
     (case textbbox E (0, 0) glyph fnt of
        Inl err \<Rightarrow> Inl err
      | Inr bbox \<Rightarrow>
     (case bbox of (bbox0, bbox1, bbox2, bbox3) \<Rightarrow>
        let text_width = bbox2 - bbox0;
            text_height = bbox3 - bbox1;
            x = (size' - text_width) div 2;
            y = (size' - text_height) div 2 - bbox1
        in
     (case draw_text E img (x, y) glyph ''white'' fnt of
        Inl err \<Rightarrow> Inl err
      | Inr img1 \<Rightarrow>
        let border_width = max 1 (size' div 64)
        in draw_rectangle E img1 [0, 0, size' - 1, size' - 1] ''#005582'' border_width))))))"

subsection \<open>The filesystem and the standard output\<close>

text \<open>
  The world a run acts on: the directories and the files under the working directory, and
  the trace of what the run did, oldest first. A file holds the format and the image it
  was saved from. The standard output is the \<open>Print\<close> events of the trace.
\<close>

datatype event = Makedirs string | Save string string image | Print string

record world =
  dirs :: "string set"
  files :: "string \<rightharpoonup> string \<times> image"
  trace :: "event list"

datatype outcome = Returned | Raised exn

definition and_then :: "outcome \<times> world \<Rightarrow> (world \<Rightarrow> outcome \<times> world) \<Rightarrow> outcome \<times> world" where
  \<comment> \<open>one statement after another: the second runs only if the first returned\<close>
  "and_then r f = (case r of (Returned, w) \<Rightarrow> f w | (Raised err, w) \<Rightarrow> (Raised err, w))"

definition os_path_exists :: "world \<Rightarrow> string \<Rightarrow> bool" where
  "os_path_exists w p = (p \<in> dirs w \<or> files w p \<noteq> None)"

definition os_makedirs :: "env \<Rightarrow> string \<Rightarrow> world \<Rightarrow> outcome \<times> world" where
  \<comment> \<open>\<open>os.makedirs\<close> raises FileExistsError, an OSError, on a path that exists\<close>
  "os_makedirs E p w =
     (if os_path_exists w p then (Raised (Exception (file_exists_message E p)), w)
      else case makedirs_error E p of
        Some err \<Rightarrow> (Raised err, w)
      | None \<Rightarrow> (Returned, w\<lparr>dirs := insert p (dirs w), trace := trace w @ [Makedirs p]\<rparr>))"

definition dirname :: "string \<Rightarrow> string" where
  "dirname p = rev (drop 1 (dropWhile (\<lambda>c. c \<noteq> CHR ''/'') (rev p)))"

definition save :: "env \<Rightarrow> image \<Rightarrow> string \<Rightarrow> string \<Rightarrow> world \<Rightarrow> outcome \<times> world" where
  \<comment> \<open>\<open>img.save(p, fmt)\<close> opens \<open>p\<close> for writing, which needs the directory of \<open>p\<close>
      (an OSError without it: NotADirectoryError where a file has its name, else
      FileNotFoundError) and replaces a file that is there; what a save that raises later
      leaves of the files is the environment's\<close>
  "save E img p fmt w =
     (if dirname p \<noteq> [] \<and> dirname p \<notin> dirs w
      then (Raised (Exception (if files w (dirname p) \<noteq> None then not_a_directory_message E p
                               else no_directory_message E p)), w)
      else case save_error E p fmt of
        Some err \<Rightarrow> (Raised err, w\<lparr>files := failed_save_files E p fmt (files w)\<rparr>)
      | None \<Rightarrow>
          (Returned, w\<lparr>files := (files w)(p \<mapsto> (fmt, img)), trace := trace w @ [Save p fmt img]\<rparr>))"

definition print :: "env \<Rightarrow> string \<Rightarrow> world \<Rightarrow> outcome \<times> world" where
  "print E line w =
     (case print_error E line of
        Some err \<Rightarrow> (Raised err, w)
      | None \<Rightarrow> (Returned, w\<lparr>trace := trace w @ [Print line]\<rparr>))"

text \<open>The emoji of the printed lines, as their UTF-8 bytes.\<close>

definition emoji_palette :: string where "emoji_palette = [CHR 0xF0, CHR 0x9F, CHR 0x8E, CHR 0xA8]"
definition emoji_check :: string where "emoji_check = [CHR 0xE2, CHR 0x9C, CHR 0x85]"
definition emoji_party :: string where "emoji_party = [CHR 0xF0, CHR 0x9F, CHR 0x8E, CHR 0x89]"
definition emoji_cross :: string where "emoji_cross = [CHR 0xE2, CHR 0x9D, CHR 0x8C]"

subsection \<open>\<open>generate_all_icons\<close> and the entry point\<close>

definition icon_filename :: "int \<Rightarrow> string" where
  \<comment> \<open>line 62: \<open>f'icons/icon-{size}x{size}.png'\<close>\<close>
  "icon_filename size' = ''icons/icon-'' @ str size' @ ''x'' @ str size' @ ''.png''"

definition ensure_icons_dir :: "env \<Rightarrow> world \<Rightarrow> outcome \<times> world" where
  \<comment> \<open>lines 55 and 56\<close>
  "ensure_icons_dir E w =
     (if \<not> os_path_exists w ''icons'' then os_makedirs E ''icons'' w else (Returned, w))"

fun save_icons :: "env \<Rightarrow> int list \<Rightarrow> world \<Rightarrow> outcome \<times> world" where
  \<comment> \<open>the loop of lines 60 to 64\<close>
  "save_icons E [] w = (Returned, w)"
| "save_icons E (size' # rest) w =
     (case create_icon E size' of
        Inl err \<Rightarrow> (Raised err, w)
      | Inr icon \<Rightarrow>
          (case save E icon (icon_filename size') ''PNG'' w of
             (Raised err, w1) \<Rightarrow> (Raised err, w1)
           | (Returned, w1) \<Rightarrow>
               (case print E (emoji_check @ '' Created '' @ icon_filename size') w1 of
                  (Raised err, w2) \<Rightarrow> (Raised err, w2)
                | (Returned, w2) \<Rightarrow> save_icons E rest w2)))"

fun list_icons :: "env \<Rightarrow> int list \<Rightarrow> world \<Rightarrow> outcome \<times> world" where
  \<comment> \<open>the loop of lines 73 and 74\<close>
  "list_icons E [] w = (Returned, w)"
| "list_icons E (size' # rest) w =
     (case print E (''  - '' @ icon_filename size') w of
        (Raised err, w1) \<Rightarrow> (Raised err, w1)
      | (Returned, w1) \<Rightarrow> list_icons E rest w1)"

definition generate_all_icons :: "env \<Rightarrow> world \<Rightarrow> outcome \<times> world" where
  "generate_all_icons E w =
     and_then (ensure_icons_dir E w) (\<lambda>w1.
     and_then (print E (emoji_palette @ '' Generating LinkedInify icons...'') w1) (\<lambda>w2.
     and_then (save_icons E ICON_SIZES w2) (\<lambda>w3.
     case create_icon E 32 of
       Inl err \<Rightarrow> (Raised err, w3)
     | Inr favicon \<Rightarrow>
     and_then (save E favicon ''favicon.ico'' ''ICO'' w3) (\<lambda>w4.
     and_then (print E (emoji_check @ '' Created favicon.ico'') w4) (\<lambda>w5.
     and_then (print E (CHR 0x0A # emoji_party @ '' All icons generated successfully!'') w5) (\<lambda>w6.
     and_then (print E (CHR 0x0A # ''Generated files:'') w6) (\<lambda>w7.
     and_then (list_icons E ICON_SIZES w7) (\<lambda>w8.
     print E ''  - favicon.ico'' w8))))))))"

definition main :: "env \<Rightarrow> world \<Rightarrow> outcome \<times> world" where
  \<comment> \<open>lines 77 to 88: \<open>except ImportError\<close> comes first, then \<open>except Exception as e\<close>;
      what is neither is not caught, and neither is what a handler itself raises\<close>
  "main E w =
     (case generate_all_icons E w of
        (Returned, w1) \<Rightarrow> (Returned, w1)
      | (Raised (ImportError m), w1) \<Rightarrow>
          and_then (print E (emoji_cross @ '' Pillow library not found. Install it with:'') w1) (\<lambda>w2.
          print E ''   pip install Pillow'' w2)
      | (Raised (Exception m), w1) \<Rightarrow>
          and_then (print E (emoji_cross @ '' Error generating icons: '' @ m) w1) (\<lambda>w2.
          and_then (print E (CHR 0x0A # ''Alternative: Use online icon generators like:'') w2) (\<lambda>w3.
          and_then (print E ''  - https://realfavicongenerator.net/'' w3) (\<lambda>w4.
          and_then (print E ''  - https://www.favicon-generator.org/'' w4) (\<lambda>w5.
          print E ''  - https://favicon.io/'' w5))))
      | (Raised (BaseException m), w1) \<Rightarrow> (Raised (BaseException m), w1))"

definition script :: "env \<Rightarrow> world \<Rightarrow> outcome \<times> world" where
  \<comment> \<open>the module, run as a program: the imports of lines 7 to 9 come before the
      \<open>try\<close> of line 78, so a failing import is raised outside it\<close>
  "script E w =
     (if pil_importable E then main E w
      else (Raised (ImportError ''No module named PIL''), w))"

text \<open>What a reader of a trace sees: the printed lines, and the saves in their order.\<close>

fun stdout :: "event list \<Rightarrow> string list" where
  "stdout [] = []"
| "stdout (Print line # evs) = line # stdout evs"
| "stdout (_ # evs) = stdout evs"

fun saves :: "event list \<Rightarrow> (string \<times> string \<times> image) list" where
  "saves [] = []"
| "saves (Save p fmt img # evs) = (p, fmt, img) # saves evs"
| "saves (_ # evs) = saves evs"

text \<open>
  The trace of a run that returns, given the icons it drew: what the loop of lines 60 to 64
  appends for a list of sizes, and what the whole of \<open>generate_all_icons\<close> appends after
  the directory is there.
\<close>

fun icon_trace :: "int list \<Rightarrow> image list \<Rightarrow> event list" where
  "icon_trace (s # ss) (icon # icons) =
     Save (icon_filename s) ''PNG'' icon
       # Print (emoji_check @ '' Created '' @ icon_filename s) # icon_trace ss icons"
| "icon_trace _ _ = []"

definition run_trace :: "image list \<Rightarrow> image \<Rightarrow> event list" where
  "run_trace icons favicon =
     Print (emoji_palette @ '' Generating LinkedInify icons...'')
       # icon_trace ICON_SIZES icons
       @ [Save ''favicon.ico'' ''ICO'' favicon,
          Print (emoji_check @ '' Created favicon.ico''),
          Print (CHR 0x0A # emoji_party @ '' All icons generated successfully!''),
          Print (CHR 0x0A # ''Generated files:'')]
       @ map (\<lambda>s. Print (''  - '' @ icon_filename s)) ICON_SIZES
       @ [Print ''  - favicon.ico'']"

text \<open>
  The lines such a run prints, the lines of the handler of lines 80 to 82, and the lines
  of the handler of lines 83 to 88 for an exception whose message is \<open>m\<close>.
\<close>

definition run_lines :: "string list" where
  "run_lines =
     (emoji_palette @ '' Generating LinkedInify icons...'')
       # map (\<lambda>s. emoji_check @ '' Created '' @ icon_filename s) ICON_SIZES
       @ [emoji_check @ '' Created favicon.ico'',
          CHR 0x0A # emoji_party @ '' All icons generated successfully!'',
          CHR 0x0A # ''Generated files:'']
       @ map (\<lambda>s. ''  - '' @ icon_filename s) ICON_SIZES
       @ [''  - favicon.ico'']"


definition failure_lines :: "string \<Rightarrow> string list" where
  "failure_lines m =
     [emoji_cross @ '' Error generating icons: '' @ m,
      CHR 0x0A # ''Alternative: Use online icon generators like:'',
      ''  - https://realfavicongenerator.net/'',
      ''  - https://www.favicon-generator.org/'',
      ''  - https://favicon.io/'']"

subsection \<open>What is known of the library, and a concrete environment\<close>

text \<open>
  Pillow keeps the width and the height of an image in C integers: \<open>Image.new\<close> raises
  on a dimension that does not fit 31 bits, whatever the memory of the machine.
\<close>

definition c_int_sizes :: "env \<Rightarrow> bool" where
  "c_int_sizes E = (\<forall>md w h col. new_error E md (w, h) col = None \<longrightarrow> w < 2 ^ 31 \<and> h < 2 ^ 31)"

text \<open>
  A machine for the examples: Pillow is installed, \<open>arial.ttf\<close> is the only font file, a
  font size that is not positive is refused, the glyph measures as the font size says, and
  the standard output takes every line.
\<close>

definition example_env :: env where
  "example_env =
     \<lparr>pil_importable = True,
      new_error = (\<lambda>md sz col.
         if 0 \<le> fst sz \<and> fst sz < 2 ^ 31 \<and> 0 \<le> snd sz \<and> snd sz < 2 ^ 31 then None
         else Some (Exception ''bad image size'')),
      truetype_error = (\<lambda>name pt.
         if pt \<le> 0 then Some (Exception ''font size must be greater than 0'')
         else if name = ''arial.ttf'' then None
         else Some (Exception ''cannot open resource'')),
      load_default_error = None,
      textbbox = (\<lambda>xy txt fnt.
         case fnt of
           FreeTypeFont name pt \<Rightarrow> Inr (0, pt div 4, pt, pt + pt div 4)
         | DefaultFont \<Rightarrow> Inr (0, 3, 10, 14)),
      text_error = (\<lambda>xy txt fnt. None),
      rectangle_error = (\<lambda>box w. None),
      makedirs_error = (\<lambda>p. None),
      save_error = (\<lambda>p fmt. None),
      failed_save_files = (\<lambda>p fmt fs. fs),
      file_exists_message = (\<lambda>p. ''[Errno 17] File exists: '' @ CHR 0x27 # p @ [CHR 0x27]),
      no_directory_message = (\<lambda>p.
         ''[Errno 2] No such file or directory: '' @ CHR 0x27 # p @ [CHR 0x27]),
      not_a_directory_message = (\<lambda>p. ''[Errno 20] Not a directory: '' @ CHR 0x27 # p @ [CHR 0x27]),
      print_error = (\<lambda>line. None)\<rparr>"

definition empty_world :: world where
  "empty_world = \<lparr>dirs = {}, files = Map.empty, trace = []\<rparr>"

text \<open>
  A second machine that differs from the first only where no rendering is involved: it
  cannot create directories. And a working directory where \<open>icons\<close> is there already.
\<close>

definition read_only_env :: env where
  "read_only_env = example_env\<lparr>makedirs_error := (\<lambda>p. Some (Exception ''Permission denied''))\<rparr>"

definition prepared_world :: world where
  "prepared_world = \<lparr>dirs = {''icons''}, files = Map.empty, trace = [Print ''earlier output'']\<rparr>"

text \<open>
  A working directory where \<open>icons\<close> is there, but is a file (what it holds does not
  matter).
\<close>

definition blocked_world :: world where
  "blocked_world =
     \<lparr>dirs = {},
      files = [''icons'' \<mapsto> (''PNG'', \<lparr>mode = ''RGB'', dimensions = (1, 1), color = ''white'', ops = []\<rparr>)],
      trace = []\<rparr>"



definition no_fonts_env :: env where
  "no_fonts_env = example_env\<lparr>truetype_error := (\<lambda>name pt.
     if name = ''arial.ttf'' then Some (ImportError ''The _imagingft C module is not installed'')
     else Some (Exception ''cannot open resource''))\<rparr>"

definition old_pillow_env :: env where
  "old_pillow_env = example_env
     \<lparr>truetype_error := (\<lambda>name pt. Some (Exception ''cannot open resource'')),
      textbbox := (\<lambda>xy txt fnt.
         case fnt of
           FreeTypeFont name pt \<Rightarrow> Inr (0, pt div 4, pt, pt + pt div 4)
         | DefaultFont \<Rightarrow> Inl (Exception ''Only supported for TrueType fonts''))\<rparr>"


section \<open>Properties\<close>

subsection \<open>The font size: \<open>int(size * 0.4)\<close> in binary64 arithmetic\<close>

lemma bit_length_upper: "n < 2 ^ bit_length n"
proof (induction n rule: bit_length.induct)
  case (1 n)
  show ?case
  proof (cases "n \<le> 0")
    case True
    then show ?thesis by (simp add: bit_length.simps)
  next
    case False
    with 1 have "n div 2 < 2 ^ bit_length (n div 2)" by simp
    then have "n < 2 * 2 ^ bit_length (n div 2)" by linarith
    with False show ?thesis by (simp add: bit_length.simps [of n])
  qed
qed

lemma bit_length_lower: "0 < n \<Longrightarrow> 2 ^ bit_length n \<le> 2 * n"
proof (induction n rule: bit_length.induct)
  case (1 n)
  show ?case
  proof (cases "n div 2 \<le> 0")
    case True
    with 1(2) have "n = 1" by linarith
    then show ?thesis by (simp add: bit_length.simps [of 1] bit_length.simps [of 0])
  next
    case False
    with 1 have "2 ^ bit_length (n div 2) \<le> 2 * (n div 2)" by simp
    then have "2 * 2 ^ bit_length (n div 2) \<le> 2 * n" by linarith
    with 1(2) show ?thesis by (simp add: bit_length.simps [of n])
  qed
qed

lemma bit_length_le: "n < 2 ^ k \<Longrightarrow> bit_length n \<le> k"
proof (cases "n \<le> 0")
  case True
  then show ?thesis by (simp add: bit_length.simps)
next
  case False
  assume "n < 2 ^ k"
  with False bit_length_lower [of n] have "(2::int) ^ bit_length n < 2 ^ Suc k" by simp
  then have "bit_length n < Suc k" by (rule power_less_imp_less_exp [rotated]) simp
  then show ?thesis by simp
qed

lemma round_half_even_lower: "m div 2 ^ s \<le> round_half_even m s"
  by (simp add: round_half_even_def Let_def)

lemma round_half_even_upper: "2 * (round_half_even m s * 2 ^ s) \<le> 2 * m + 2 ^ s"
proof -
  define q r where "q = m div 2 ^ s" and "r = m mod (2::int) ^ s"
  have m: "m = q * 2 ^ s + r" unfolding q_def r_def by (rule div_mult_mod_eq [symmetric])
  have r: "0 \<le> r" by (simp add: r_def)
  show ?thesis
    unfolding round_half_even_def Let_def q_def [symmetric] r_def [symmetric]
    using r by (auto simp: m algebra_simps)
qed

lemma div_between: "a * t \<le> r \<Longrightarrow> r < (a + 1) * t \<Longrightarrow> r div t = (a::int)"
proof -
  assume lo: "a * t \<le> r" and hi: "r < (a + 1) * t"
  have "r = t * a + (r - a * t)" by (simp add: algebra_simps)
  moreover have "0 \<le> r - a * t" using lo by simp
  moreover have "r - a * t < t" using hi by (simp add: algebra_simps)
  ultimately show ?thesis by (rule int_div_pos_eq)
qed

lemma float_of_int_small: "0 \<le> n \<Longrightarrow> n < 2 ^ 53 \<Longrightarrow> float_of_int n = Inr (n, 0)"
proof -
  assume n: "0 \<le> n" "n < 2 ^ 53"
  then have k: "bit_length \<bar>n\<bar> \<le> 53" by (intro bit_length_le) simp
  then have r: "round53 (n, 0) = (n, 0)" by (simp add: round53_def)
  with k show ?thesis by (simp add: float_of_int_def)
qed

lemma font_size_exact:
  assumes "0 \<le> n" "n < 2 ^ 50"
  shows "font_size n = Inr (2 * n div 5)"
proof -
  define N where "N = n * 7205759403792794"
  define a b where "a = 2 * n div 5" and "b = 2 * n mod 5"
  have n50: "n < 1125899906842624" using assms(2) by simp
  have ab: "2 * n = 5 * a + b" "0 \<le> b" "b \<le> 4" by (simp_all add: a_def b_def)
  have a0: "0 \<le> a" using assms(1) by (simp add: a_def pos_imp_zdiv_nonneg_iff)
  have N0: "0 \<le> N" using assms(1) by (simp add: N_def)
  have "5 * N = 18014398509481984 * (2 * n) + 2 * n" by (simp add: N_def)
  then have "5 * N = 18014398509481984 * (5 * a + b) + 2 * n" by (simp only: ab(1))
  then have fiveN: "5 * N = 90071992547409920 * a + 18014398509481984 * b + 2 * n"
    by (simp add: algebra_simps)
  have "n < 2 ^ 53" using n50 by simp
  with assms(1) have fl: "float_of_int n = Inr (n, 0)" by (rule float_of_int_small)
  have fs: "font_size n = Inr (int_of_float (round53 (N, - 54)))"
    by (simp add: font_size_def fl float_mul_def float_0_4_def N_def)
  have "int_of_float (round53 (N, - 54)) = a"
  proof (cases "bit_length N \<le> 53")
    case True
    have "N < 2 ^ bit_length N" by (rule bit_length_upper)
    also have "\<dots> \<le> 2 ^ 53" using True by (intro power_increasing) simp_all
    finally have N53: "N < 9007199254740992" by simp
    then have "n \<le> 1" by (simp add: N_def)
    with assms(1) have "a = 0" by (simp add: a_def)
    moreover have "N div 18014398509481984 = 0" using N0 N53 by simp
    ultimately show ?thesis using True N0 by (simp add: round53_def int_of_float_def)
  next
    case False
    define s where "s = bit_length N - 53"
    define R where "R = round_half_even N s"
    have "N < 2 ^ 103" using n50 by (simp add: N_def)
    then have "bit_length N \<le> 103" by (rule bit_length_le)
    then have s50: "s \<le> 50" by (simp add: s_def)
    define S T :: int where "S = 2 ^ s" and "T = 2 ^ (54 - s)"
    have ST: "T * S = 18014398509481984"
    proof -
      have "T * S = 2 ^ ((54 - s) + s)" unfolding S_def T_def by (rule power_add [symmetric])
      also have "(54 - s) + s = 54" using s50 by simp
      finally show ?thesis by simp
    qed
    have Spos: "0 < S" by (simp add: S_def)
    have "S \<le> 2 ^ 50" unfolding S_def using s50 by (intro power_increasing) simp_all
    then have S50: "S \<le> 1125899906842624" by simp
    have Npos: "0 < N" using False N0 by (cases "N = 0") (simp_all add: bit_length.simps [of 0])
    have rd: "round53 (N, - 54) = (R, int s - 54)"
      using False Npos N0 by (simp add: round53_def R_def s_def Let_def)
    have lo: "a * T \<le> R"
    proof -
      have "a * 18014398509481984 \<le> N" using fiveN ab a0 by linarith
      then have "a * T * S \<le> N" by (simp add: mult.assoc ST)
      then have "a * T * S div S \<le> N div S" by (rule zdiv_mono1) (rule Spos)
      then have "a * T \<le> N div S" using Spos by simp
      also have "\<dots> \<le> R" unfolding R_def S_def by (rule round_half_even_lower)
      finally show ?thesis .
    qed
    have hi: "R < (a + 1) * T"
    proof -
      have "2 * (R * S) \<le> 2 * N + S" unfolding R_def S_def by (rule round_half_even_upper)
      then have "10 * (R * S) \<le> 10 * N + 5 * S" by simp
      also have "\<dots> < 10 * ((a + 1) * 18014398509481984)"
      proof -
        have "10 * N = 180143985094819840 * a + 36028797018963968 * b + 4 * n"
          using fiveN by linarith
        moreover have "10 * ((a + 1) * 18014398509481984)
            = 180143985094819840 * a + 180143985094819840"
          by (simp add: algebra_simps)
        moreover have "36028797018963968 * b \<le> 144115188075855872" using ab(3) by simp
        ultimately show ?thesis using S50 n50 by linarith
      qed
      finally have "R * S < (a + 1) * T * S" by (simp add: mult.assoc ST)
      then show ?thesis using Spos by (simp only: mult_less_cancel_right)
    qed
    have "0 \<le> a * T" using a0 by (simp add: T_def)
    with lo have R0: "0 \<le> R" by linarith
    have "int_of_float (R, int s - 54) = R div T"
      using s50 R0 by (simp add: int_of_float_def T_def nat_diff_distrib')
    also have "\<dots> = a" using lo hi by (rule div_between)
    finally show ?thesis by (simp add: rd)
  qed
  then show ?thesis by (simp add: fs a_def)
qed

text \<open>
  The bound is needed. From \<open>2 ^ 51\<close> on, the rounding of the product can reach the next
  integer, as at this size, where the exact product is 1480616182418082.8.
\<close>

lemma font_size_rounds_up: "font_size 3701540456045207 = Inr 1480616182418083"
  by code_simp

subsection \<open>\<open>create_icon\<close>\<close>

lemma floor_two_fifths: "\<lfloor>real_of_int n * 0.4\<rfloor> = 2 * n div 5"
proof -
  have "real_of_int n * 0.4 = real_of_int (2 * n) / real_of_int 5" by simp
  then show ?thesis by (simp only: floor_divide_of_int_eq)
qed

lemma font_size_floor: "0 \<le> n \<Longrightarrow> n < 2 ^ 50 \<Longrightarrow> font_size n = Inr \<lfloor>real_of_int n * 0.4\<rfloor>"
  by (simp only: floor_two_fifths font_size_exact)

lemma floor_half: "\<lfloor>real_of_int n / 2\<rfloor> = n div 2"
  using floor_divide_of_int_eq [of n 2, where ?'a = real] by simp

lemma create_icon_Inr:
  "create_icon E s = Inr img \<longleftrightarrow>
     (\<exists>pt fnt b0 b1 b2 b3.
        new_error E ''RGB'' (s, s) ''#0077b5'' = None \<and>
        font_size s = Inr pt \<and>
        select_font E pt = Inr fnt \<and>
        textbbox E (0, 0) glyph fnt = Inr (b0, b1, b2, b3) \<and>
        text_error E ((s - (b2 - b0)) div 2, (s - (b3 - b1)) div 2 - b1) glyph fnt = None \<and>
        rectangle_error E [0, 0, s - 1, s - 1] (max 1 (s div 64)) = None \<and>
        img = \<lparr>mode = ''RGB'', dimensions = (s, s), color = ''#0077b5'',
                ops = [Text ((s - (b2 - b0)) div 2, (s - (b3 - b1)) div 2 - b1) glyph ''white'' fnt,
                       Rectangle [0, 0, s - 1, s - 1] ''#005582'' (max 1 (s div 64))]\<rparr>)"
  by (auto simp: create_icon_def Image_new_def draw_text_def draw_rectangle_def Let_def
           split: sum.splits option.splits prod.splits)

lemma select_font_tiers:
  "select_font E pt =
     (if truetype_error E ''arial.ttf'' pt = None then Inr (FreeTypeFont ''arial.ttf'' pt)
      else if truetype_error E ''/System/Library/Fonts/Arial.ttf'' pt = None
        then Inr (FreeTypeFont ''/System/Library/Fonts/Arial.ttf'' pt)
      else load_default E)"
  by (simp add: select_font_def truetype_def split: option.splits)

lemma size_fits:
  "c_int_sizes E \<Longrightarrow> new_error E md (s, s) col = None \<Longrightarrow> s < 2 ^ 50"
proof -
  assume "c_int_sizes E" "new_error E md (s, s) col = None"
  then have "s < 2 ^ 31" unfolding c_int_sizes_def by blast
  also have "(2::int) ^ 31 \<le> 2 ^ 50" by (rule power_increasing) simp_all
  finally show ?thesis .
qed

lemma create_icon_returns:
  assumes "c_int_sizes E" "0 < s"
    and "new_error E ''RGB'' (s, s) ''#0077b5'' = None"
    and "load_default_error E = None"
    and "\<forall>fnt. \<exists>box. textbbox E (0, 0) glyph fnt = Inr box"
    and "\<forall>xy fnt. text_error E xy glyph fnt = None"
    and "rectangle_error E [0, 0, s - 1, s - 1] (max 1 (s div 64)) = None"
  shows "\<exists>img. create_icon E s = Inr img"
proof -
  have "s < 2 ^ 50" using assms(1,3) by (rule size_fits)
  with assms(2) have pt: "font_size s = Inr (2 * s div 5)" by (simp add: font_size_exact)
  have "\<exists>fnt. select_font E (2 * s div 5) = Inr fnt"
    using assms(4) by (simp add: select_font_tiers load_default_def)
  then obtain fnt where fnt: "select_font E (2 * s div 5) = Inr fnt" ..
  obtain b0 b1 b2 b3 where "textbbox E (0, 0) glyph fnt = Inr (b0, b1, b2, b3)"
    using assms(5) by (metis prod_cases4)
  with pt fnt assms(3,6,7) show ?thesis by (simp add: create_icon_Inr)
qed

lemma example_env_c_int_sizes: "c_int_sizes example_env"
  by (simp add: c_int_sizes_def example_env_def)

lemma font_size_72: "font_size 72 = Inr 28"
  by (simp add: font_size_exact)

lemma example_icon_72:
  "create_icon example_env 72 =
     Inr \<lparr>mode = ''RGB'', dimensions = (72, 72), color = ''#0077b5'',
          ops = [Text (22, 15) glyph ''white'' (FreeTypeFont ''arial.ttf'' 28),
                 Rectangle [0, 0, 71, 71] ''#005582'' 1]\<rparr>"
  by (simp add: create_icon_Inr font_size_72 select_font_tiers example_env_def)

lemma example_select_font_28:
  "select_font example_env 28 = Inr (FreeTypeFont ''arial.ttf'' 28)"
  by (simp add: select_font_tiers example_env_def)

lemma example_textbbox_28:
  "textbbox example_env (0, 0) glyph (FreeTypeFont ''arial.ttf'' 28) = Inr (0, 7, 28, 35)"
  by (simp add: example_env_def)

text \<open>
  Claim C2. For every size above 0 at which \<open>create_icon\<close> returns, the image is an RGB
  image of size by size pixels that was filled with the colour \<open>#0077b5\<close>, and the point
  size asked of the font loader is the floor of 0.4 times the size: the float product of
  line 22, truncated, is that number for every size that fits the library's dimensions.
  The font that draws the glyph is one of the two named fonts at that point size or the
  default font.
\<close>

theorem create_icon_image:
  assumes "c_int_sizes E" and "0 < size'" and "create_icon E size' = Inr img"
  shows "mode img = ''RGB'' \<and> dimensions img = (size', size') \<and> color img = ''#0077b5'' \<and>
         font_size size' = Inr \<lfloor>real_of_int size' * 0.4\<rfloor> \<and>
         (\<exists>fnt. select_font E \<lfloor>real_of_int size' * 0.4\<rfloor> = Inr fnt \<and>
            fnt \<in> {FreeTypeFont ''arial.ttf'' \<lfloor>real_of_int size' * 0.4\<rfloor>,
                   FreeTypeFont ''/System/Library/Fonts/Arial.ttf'' \<lfloor>real_of_int size' * 0.4\<rfloor>,
                   DefaultFont})"
proof -
  from assms(3) obtain pt fnt where
    new: "new_error E ''RGB'' (size', size') ''#0077b5'' = None" and
    pt: "font_size size' = Inr pt" and
    fnt: "select_font E pt = Inr fnt" and
    img: "mode img = ''RGB''" "dimensions img = (size', size')" "color img = ''#0077b5''"
    by (auto simp: create_icon_Inr)
  have "size' < 2 ^ 50" using assms(1) new by (rule size_fits)
  with assms(2) have fl: "font_size size' = Inr \<lfloor>real_of_int size' * 0.4\<rfloor>"
    by (simp add: font_size_floor)
  with pt have pt': "pt = \<lfloor>real_of_int size' * 0.4\<rfloor>" by simp
  have "fnt \<in> {FreeTypeFont ''arial.ttf'' pt, FreeTypeFont ''/System/Library/Fonts/Arial.ttf'' pt, DefaultFont}"
    using fnt by (auto simp: select_font_tiers load_default_def split: if_splits option.splits)
  with fnt img fl show ?thesis unfolding pt' by blast
qed

theorem create_icon_image_witness:
  "c_int_sizes example_env \<and> (0::int) < 72 \<and>
   (\<exists>img. create_icon example_env 72 = Inr img \<and>
      mode img = ''RGB'' \<and> dimensions img = (72, 72) \<and> color img = ''#0077b5'') \<and>
   font_size 72 = Inr 28 \<and>
   select_font example_env 28 = Inr (FreeTypeFont ''arial.ttf'' 28)"
  using create_icon_image [OF example_env_c_int_sizes _ example_icon_72]
    example_env_c_int_sizes example_icon_72 example_select_font_28
  by (simp add: floor_two_fifths)

text \<open>
  Claim C3. For every size above 0 at which \<open>create_icon\<close> returns, exactly two drawing
  calls were made: the glyph, then the border. The border is a rectangle outline in the
  colour \<open>#005582\<close> from \<open>(0, 0)\<close> to \<open>(size - 1, size - 1)\<close>, of thickness
  \<open>max(1, size // 64)\<close>: 8 at size 512 and 1 at size 72.
\<close>

theorem create_icon_border:
  assumes "0 < size'" and "create_icon E size' = Inr img"
  shows "(\<exists>xy fnt. ops img =
            [Text xy glyph ''white'' fnt,
             Rectangle [0, 0, size' - 1, size' - 1] ''#005582'' (max 1 (size' div 64))]) \<and>
         (size' = 512 \<longrightarrow> last (ops img) = Rectangle [0, 0, 511, 511] ''#005582'' 8) \<and>
         (size' = 72 \<longrightarrow> last (ops img) = Rectangle [0, 0, 71, 71] ''#005582'' 1)"
  using assms(2) by (auto simp: create_icon_Inr)

theorem create_icon_border_witness:
  "(0::int) < 72 \<and>
   (\<exists>img. create_icon example_env 72 = Inr img \<and>
      last (ops img) = Rectangle [0, 0, 71, 71] ''#005582'' 1)"
  using create_icon_border [OF _ example_icon_72] example_icon_72
  by simp

text \<open>
  Claim C4. For every size above 0 at which \<open>create_icon\<close> returns, the glyph was
  measured at \<open>(0, 0)\<close> with the chosen font and drawn in white at
  \<open>x = floor((size - width) / 2)\<close> and \<open>y = floor((size - height) / 2) - top\<close>, where
  width and height are those of the measured box and top is its upper coordinate.
\<close>

theorem create_icon_glyph_position:
  assumes "0 < size'" and "create_icon E size' = Inr img"
  shows "\<exists>pt fnt b0 b1 b2 b3.
           font_size size' = Inr pt \<and> select_font E pt = Inr fnt \<and>
           textbbox E (0, 0) glyph fnt = Inr (b0, b1, b2, b3) \<and>
           hd (ops img) =
             Text (\<lfloor>real_of_int (size' - (b2 - b0)) / 2\<rfloor>,
                   \<lfloor>real_of_int (size' - (b3 - b1)) / 2\<rfloor> - b1) glyph ''white'' fnt"
  using assms(2) unfolding floor_half by (auto simp: create_icon_Inr)

theorem create_icon_glyph_position_witness:
  "(0::int) < 72 \<and>
   (\<exists>img. create_icon example_env 72 = Inr img \<and>
      textbbox example_env (0, 0) glyph (FreeTypeFont ''arial.ttf'' 28) = Inr (0, 7, 28, 35) \<and>
      hd (ops img) = Text (22, 15) glyph ''white'' (FreeTypeFont ''arial.ttf'' 28))"
  using create_icon_glyph_position [OF _ example_icon_72] example_icon_72 example_textbbox_28
  by simp

subsection \<open>The filesystem and \<open>generate_all_icons\<close>\<close>

lemma and_then_Returned:
  "and_then r f = (Returned, w') \<longleftrightarrow> (\<exists>w1. r = (Returned, w1) \<and> f w1 = (Returned, w'))"
  by (cases r) (auto simp: and_then_def split: outcome.splits)

lemma and_then_Raised:
  "and_then r f = (Raised err, w') \<longleftrightarrow>
     r = (Raised err, w') \<or> (\<exists>w1. r = (Returned, w1) \<and> f w1 = (Raised err, w'))"
  by (cases r) (auto simp: and_then_def split: outcome.splits)

lemma and_then_step:
  "and_then (Returned, w) f = f w" "and_then (Raised err, w) f = (Raised err, w)"
  by (simp_all add: and_then_def)

lemma print_Returned:
  "print E line w = (Returned, w') \<longleftrightarrow>
     print_error E line = None \<and> w' = w\<lparr>trace := trace w @ [Print line]\<rparr>"
  by (auto simp: print_def split: option.splits)

lemma print_Raised:
  "print E line w = (Raised err, w') \<longleftrightarrow> print_error E line = Some err \<and> w' = w"
  by (auto simp: print_def split: option.splits)

lemma print_ok:
  "print_error E line = None \<Longrightarrow> print E line w = (Returned, w\<lparr>trace := trace w @ [Print line]\<rparr>)"
  by (simp add: print_def)

lemma str_nat_digits: "set (str_nat n) \<subseteq> set ''0123456789''"
proof (induction n rule: str_nat.induct)
  case (1 n)
  have d: "''0123456789'' ! k \<in> set ''0123456789''" if "k < 10" for k
    using that by (intro nth_mem) simp
  show ?case
  proof (cases "n < 10")
    case True
    then show ?thesis using d [of n] by (subst str_nat.simps) simp
  next
    case False
    have "n mod 10 < 10" by simp
    then have "''0123456789'' ! (n mod 10) \<in> set ''0123456789''" by (rule d)
    with False 1 show ?thesis by (subst str_nat.simps) simp
  qed
qed

lemma str_no_slash: "CHR ''/'' \<notin> set (str n)"
  using str_nat_digits [of "nat n"] str_nat_digits [of "nat (- n)"]
  by (auto simp: str_def)

lemma dirname_slash:
  "CHR ''/'' \<notin> set t \<Longrightarrow> dirname (d @ CHR ''/'' # t) = d"
proof -
  assume "CHR ''/'' \<notin> set t"
  then have "dropWhile (\<lambda>c. c \<noteq> CHR ''/'') (rev t @ CHR ''/'' # rev d) =
      dropWhile (\<lambda>c. c \<noteq> CHR ''/'') (CHR ''/'' # rev d)"
    by (intro dropWhile_append2) auto
  then show ?thesis by (simp add: dirname_def)
qed

lemma dirname_icon_filename: "dirname (icon_filename s) = ''icons''"
proof -
  have "CHR ''/'' \<notin> set (''icon-'' @ str s @ ''x'' @ str s @ ''.png'')"
    using str_no_slash [of s] by simp
  then have "dirname (''icons'' @ CHR ''/'' # (''icon-'' @ str s @ ''x'' @ str s @ ''.png'')) = ''icons''"
    by (rule dirname_slash)
  then show ?thesis by (simp add: icon_filename_def)
qed

lemma dirname_favicon: "dirname ''favicon.ico'' = []"
  by (simp add: dirname_def)

lemma save_icon_Returned:
  "save E img (icon_filename s) fmt w = (Returned, w') \<longleftrightarrow>
     ''icons'' \<in> dirs w \<and> save_error E (icon_filename s) fmt = None \<and>
     w' = w\<lparr>files := (files w)(icon_filename s \<mapsto> (fmt, img)),
            trace := trace w @ [Save (icon_filename s) fmt img]\<rparr>"
  by (auto simp: save_def dirname_icon_filename split: option.splits)

lemma save_favicon_Returned:
  "save E img ''favicon.ico'' fmt w = (Returned, w') \<longleftrightarrow>
     save_error E ''favicon.ico'' fmt = None \<and>
     w' = w\<lparr>files := (files w)(''favicon.ico'' \<mapsto> (fmt, img)),
            trace := trace w @ [Save ''favicon.ico'' fmt img]\<rparr>"
  by (auto simp: save_def dirname_favicon split: option.splits)


lemma save_icon_not_Returned:
  "save E img (icon_filename s) fmt w = (Raised err, w') \<Longrightarrow>
   \<not> (''icons'' \<in> dirs w \<and> save_error E (icon_filename s) fmt = None)"
  by (auto simp: save_def dirname_icon_filename split: option.splits if_splits)

lemma print_not_Returned:
  "print E line w = (Raised err, w') \<Longrightarrow> print_error E line \<noteq> None"
  by (simp add: print_Raised)

lemma save_icons_Cons_Returned:
  "save_icons E (s # sizes) w = (Returned, w') \<longleftrightarrow>
     (\<exists>icon. create_icon E s = Inr icon \<and> ''icons'' \<in> dirs w \<and>
        save_error E (icon_filename s) ''PNG'' = None \<and>
        print_error E (emoji_check @ '' Created '' @ icon_filename s) = None \<and>
        save_icons E sizes
          (w\<lparr>files := (files w)(icon_filename s \<mapsto> (''PNG'', icon)),
             trace := trace w @ [Save (icon_filename s) ''PNG'' icon,
                                 Print (emoji_check @ '' Created '' @ icon_filename s)]\<rparr>)
          = (Returned, w'))"
  by (auto simp: save_icon_Returned print_Returned
           split: sum.splits prod.splits outcome.splits
           dest: save_icon_not_Returned print_not_Returned)

lemma save_icons_Returned:
  "save_icons E sizes w = (Returned, w') \<longleftrightarrow>
     (\<exists>icons. map (create_icon E) sizes = map Inr icons \<and>
        (\<forall>s \<in> set sizes. save_error E (icon_filename s) ''PNG'' = None) \<and>
        (\<forall>s \<in> set sizes. print_error E (emoji_check @ '' Created '' @ icon_filename s) = None) \<and>
        (sizes \<noteq> [] \<longrightarrow> ''icons'' \<in> dirs w) \<and>
        w' = w\<lparr>files := (files w)(map icon_filename sizes [\<mapsto>] map (Pair ''PNG'') icons),
               trace := trace w @ icon_trace sizes icons\<rparr>)"
proof (induction sizes arbitrary: w)
  case Nil
  then show ?case by auto
next
  case (Cons s sizes)
  show ?case
    unfolding save_icons_Cons_Returned Cons.IH
    by (auto simp: map_eq_Cons_conv Cons_eq_map_conv)
qed

lemma list_icons_Returned:
  "list_icons E ss w = (Returned, w') \<longleftrightarrow>
     (\<forall>s \<in> set ss. print_error E (''  - '' @ icon_filename s) = None) \<and>
     w' = w\<lparr>trace := trace w @ map (\<lambda>s. Print (''  - '' @ icon_filename s)) ss\<rparr>"
proof (induction ss arbitrary: w)
  case Nil
  then show ?case by auto
next
  case (Cons s ss)
  show ?case
  proof (cases "print_error E (''  - '' @ icon_filename s)")
    case None
    then show ?thesis by (auto simp: print_ok Cons.IH)
  next
    case (Some err)
    then show ?thesis by (simp add: print_def)
  qed
qed

lemma ensure_icons_dir_Returned:
  "ensure_icons_dir E w = (Returned, w1) \<longleftrightarrow>
     (if os_path_exists w ''icons'' then w1 = w
      else makedirs_error E ''icons'' = None \<and>
           w1 = w\<lparr>dirs := insert ''icons'' (dirs w), trace := trace w @ [Makedirs ''icons'']\<rparr>)"
  by (auto simp: ensure_icons_dir_def os_makedirs_def split: option.splits)

lemma ensure_icons_dir_files:
  "ensure_icons_dir E w = (r, w1) \<Longrightarrow> files w1 = files w"
  by (auto simp: ensure_icons_dir_def os_makedirs_def split: option.splits if_splits)


lemma map_upds_snoc:
  "length xs = length ys \<Longrightarrow> (m(xs [\<mapsto>] ys))(k \<mapsto> v) = m(xs @ [k] [\<mapsto>] ys @ [v])"
  by (simp add: map_upds_def)

lemma ICON_SIZES_not_Nil: "ICON_SIZES \<noteq> []"
  by (simp add: ICON_SIZES_def)

lemma length_created:
  "map (create_icon E) ss = map Inr icons \<Longrightarrow> length icons = length ss"
  using map_eq_imp_length_eq by fastforce

lemma run_lines_ok:
  "(\<forall>line \<in> set run_lines. print_error E line = None) \<longleftrightarrow>
     print_error E (emoji_palette @ '' Generating LinkedInify icons...'') = None \<and>
     (\<forall>s \<in> set ICON_SIZES. print_error E (emoji_check @ '' Created '' @ icon_filename s) = None) \<and>
     print_error E (emoji_check @ '' Created favicon.ico'') = None \<and>
     print_error E (CHR 0x0A # emoji_party @ '' All icons generated successfully!'') = None \<and>
     print_error E (CHR 0x0A # ''Generated files:'') = None \<and>
     (\<forall>s \<in> set ICON_SIZES. print_error E (''  - '' @ icon_filename s) = None) \<and>
     print_error E ''  - favicon.ico'' = None"
  unfolding run_lines_def by auto

lemma generate_all_icons_Returned:
  "generate_all_icons E w = (Returned, w') \<longleftrightarrow>
     (\<exists>w1 icons favicon.
        ensure_icons_dir E w = (Returned, w1) \<and> ''icons'' \<in> dirs w1 \<and>
        map (create_icon E) ICON_SIZES = map Inr icons \<and>
        (\<forall>s \<in> set ICON_SIZES. save_error E (icon_filename s) ''PNG'' = None) \<and>
        create_icon E 32 = Inr favicon \<and>
        save_error E ''favicon.ico'' ''ICO'' = None \<and>
        (\<forall>line \<in> set run_lines. print_error E line = None) \<and>
        w' = w1\<lparr>files := (files w1)(map icon_filename ICON_SIZES @ [''favicon.ico'']
                              [\<mapsto>] map (Pair ''PNG'') icons @ [(''ICO'', favicon)]),
                trace := trace w1 @ run_trace icons favicon\<rparr>)"
  (is "?lhs \<longleftrightarrow> ?rhs")
proof
  assume ?lhs
  then obtain w1 w2 w3 where
    e: "ensure_icons_dir E w = (Returned, w1)" and
    b: "print E (emoji_palette @ '' Generating LinkedInify icons...'') w1 = (Returned, w2)" and
    l: "save_icons E ICON_SIZES w2 = (Returned, w3)" and
    r: "(case create_icon E 32 of
           Inl err \<Rightarrow> (Raised err, w3)
         | Inr favicon \<Rightarrow>
             and_then (save E favicon ''favicon.ico'' ''ICO'' w3) (\<lambda>w4.
             and_then (print E (emoji_check @ '' Created favicon.ico'') w4) (\<lambda>w5.
             and_then (print E (CHR 0x0A # emoji_party @ '' All icons generated successfully!'') w5) (\<lambda>w6.
             and_then (print E (CHR 0x0A # ''Generated files:'') w6) (\<lambda>w7.
             and_then (list_icons E ICON_SIZES w7) (\<lambda>w8.
             print E ''  - favicon.ico'' w8)))))) = (Returned, w')"
    unfolding generate_all_icons_def and_then_Returned by blast
  from r obtain favicon where
    f: "create_icon E 32 = Inr favicon" and
    r': "and_then (save E favicon ''favicon.ico'' ''ICO'' w3) (\<lambda>w4.
         and_then (print E (emoji_check @ '' Created favicon.ico'') w4) (\<lambda>w5.
         and_then (print E (CHR 0x0A # emoji_party @ '' All icons generated successfully!'') w5) (\<lambda>w6.
         and_then (print E (CHR 0x0A # ''Generated files:'') w6) (\<lambda>w7.
         and_then (list_icons E ICON_SIZES w7) (\<lambda>w8.
         print E ''  - favicon.ico'' w8))))) = (Returned, w')"
    by (cases "create_icon E 32") simp_all
  from r' obtain w4 w5 w6 w7 w8 where
    s: "save E favicon ''favicon.ico'' ''ICO'' w3 = (Returned, w4)" and
    p: "print E (emoji_check @ '' Created favicon.ico'') w4 = (Returned, w5)"
       "print E (CHR 0x0A # emoji_party @ '' All icons generated successfully!'') w5 = (Returned, w6)"
       "print E (CHR 0x0A # ''Generated files:'') w6 = (Returned, w7)" and
    li: "list_icons E ICON_SIZES w7 = (Returned, w8)" and
    w': "print E ''  - favicon.ico'' w8 = (Returned, w')"
    unfolding and_then_Returned by blast
  from l obtain icons where
    i: "map (create_icon E) ICON_SIZES = map Inr icons"
       "\<forall>s \<in> set ICON_SIZES. save_error E (icon_filename s) ''PNG'' = None"
       "\<forall>s \<in> set ICON_SIZES. print_error E (emoji_check @ '' Created '' @ icon_filename s) = None"
       "''icons'' \<in> dirs w2" and
    w3: "w3 = w2\<lparr>files := (files w2)(map icon_filename ICON_SIZES [\<mapsto>] map (Pair ''PNG'') icons),
            trace := trace w2 @ icon_trace ICON_SIZES icons\<rparr>"
    by (auto simp: save_icons_Returned ICON_SIZES_not_Nil)
  from b have w2: "print_error E (emoji_palette @ '' Generating LinkedInify icons...'') = None"
    "w2 = w1\<lparr>trace := trace w1 @ [Print (emoji_palette @ '' Generating LinkedInify icons...'')]\<rparr>"
    by (simp_all add: print_Returned)
  from i(1) have len: "length (map icon_filename ICON_SIZES) = length (map (Pair ''PNG'') icons)"
    by (simp add: length_created)
  from s have w4: "save_error E ''favicon.ico'' ''ICO'' = None"
    "w4 = w3\<lparr>files := (files w3)(''favicon.ico'' \<mapsto> (''ICO'', favicon)),
             trace := trace w3 @ [Save ''favicon.ico'' ''ICO'' favicon]\<rparr>"
    by (simp_all add: save_favicon_Returned)
  from p li w' have pr:
    "print_error E (emoji_check @ '' Created favicon.ico'') = None"
    "print_error E (CHR 0x0A # emoji_party @ '' All icons generated successfully!'') = None"
    "print_error E (CHR 0x0A # ''Generated files:'') = None"
    "\<forall>s \<in> set ICON_SIZES. print_error E (''  - '' @ icon_filename s) = None"
    "print_error E ''  - favicon.ico'' = None"
    and ws: "w5 = w4\<lparr>trace := trace w4 @ [Print (emoji_check @ '' Created favicon.ico'')]\<rparr>"
    "w6 = w5\<lparr>trace := trace w5 @ [Print (CHR 0x0A # emoji_party @ '' All icons generated successfully!'')]\<rparr>"
    "w7 = w6\<lparr>trace := trace w6 @ [Print (CHR 0x0A # ''Generated files:'')]\<rparr>"
    "w8 = w7\<lparr>trace := trace w7 @ map (\<lambda>s. Print (''  - '' @ icon_filename s)) ICON_SIZES\<rparr>"
    "w' = w8\<lparr>trace := trace w8 @ [Print ''  - favicon.ico'']\<rparr>"
    by (simp_all add: print_Returned list_icons_Returned)
  have ok: "\<forall>line \<in> set run_lines. print_error E line = None"
    unfolding run_lines_ok using w2(1) i(3) pr by simp
  have "w' = w1\<lparr>files := (files w1)(map icon_filename ICON_SIZES @ [''favicon.ico'']
                              [\<mapsto>] map (Pair ''PNG'') icons @ [(''ICO'', favicon)]),
                trace := trace w1 @ run_trace icons favicon\<rparr>"
    unfolding ws w4(2) w3 w2(2) map_upds_snoc [OF len, symmetric]
    by (simp add: run_trace_def)
  moreover have "''icons'' \<in> dirs w1" using i(4) by (simp add: w2(2))
  ultimately show ?rhs using e i(1,2) f w4(1) ok by blast
next
  assume ?rhs
  then obtain w1 icons favicon where
    e: "ensure_icons_dir E w = (Returned, w1)" and
    i: "map (create_icon E) ICON_SIZES = map Inr icons"
       "\<forall>s \<in> set ICON_SIZES. save_error E (icon_filename s) ''PNG'' = None"
       "''icons'' \<in> dirs w1" and
    f: "create_icon E 32 = Inr favicon" and
    s: "save_error E ''favicon.ico'' ''ICO'' = None" and
    ok: "\<forall>line \<in> set run_lines. print_error E line = None" and
    w': "w' = w1\<lparr>files := (files w1)(map icon_filename ICON_SIZES @ [''favicon.ico'']
                              [\<mapsto>] map (Pair ''PNG'') icons @ [(''ICO'', favicon)]),
                trace := trace w1 @ run_trace icons favicon\<rparr>"
    by blast
  from ok have pr:
    "print_error E (emoji_palette @ '' Generating LinkedInify icons...'') = None"
    "\<forall>s \<in> set ICON_SIZES. print_error E (emoji_check @ '' Created '' @ icon_filename s) = None"
    "print_error E (emoji_check @ '' Created favicon.ico'') = None"
    "print_error E (CHR 0x0A # emoji_party @ '' All icons generated successfully!'') = None"
    "print_error E (CHR 0x0A # ''Generated files:'') = None"
    "\<forall>s \<in> set ICON_SIZES. print_error E (''  - '' @ icon_filename s) = None"
    "print_error E ''  - favicon.ico'' = None"
    unfolding run_lines_ok by simp_all
  define w2 where
    "w2 = w1\<lparr>trace := trace w1 @ [Print (emoji_palette @ '' Generating LinkedInify icons...'')]\<rparr>"
  define w3 where
    "w3 = w2\<lparr>files := (files w2)(map icon_filename ICON_SIZES [\<mapsto>] map (Pair ''PNG'') icons),
            trace := trace w2 @ icon_trace ICON_SIZES icons\<rparr>"
  define w4 where "w4 = w3\<lparr>files := (files w3)(''favicon.ico'' \<mapsto> (''ICO'', favicon)),
             trace := trace w3 @ [Save ''favicon.ico'' ''ICO'' favicon]\<rparr>"
  define w5 where "w5 = w4\<lparr>trace := trace w4 @ [Print (emoji_check @ '' Created favicon.ico'')]\<rparr>"
  define w6 where
    "w6 = w5\<lparr>trace := trace w5 @ [Print (CHR 0x0A # emoji_party @ '' All icons generated successfully!'')]\<rparr>"
  define w7 where "w7 = w6\<lparr>trace := trace w6 @ [Print (CHR 0x0A # ''Generated files:'')]\<rparr>"
  define w8 where
    "w8 = w7\<lparr>trace := trace w7 @ map (\<lambda>s. Print (''  - '' @ icon_filename s)) ICON_SIZES\<rparr>"
  have b: "print E (emoji_palette @ '' Generating LinkedInify icons...'') w1 = (Returned, w2)"
    using pr(1) by (simp add: print_Returned w2_def)
  have l: "save_icons E ICON_SIZES w2 = (Returned, w3)"
    unfolding save_icons_Returned using i pr(2) by (auto simp: w3_def w2_def)
  from i(1) have len: "length (map icon_filename ICON_SIZES) = length (map (Pair ''PNG'') icons)"
    by (simp add: length_created)
  have sv: "save E favicon ''favicon.ico'' ''ICO'' w3 = (Returned, w4)"
    using s by (simp add: save_favicon_Returned w4_def)
  have p: "print E (emoji_check @ '' Created favicon.ico'') w4 = (Returned, w5)"
       "print E (CHR 0x0A # emoji_party @ '' All icons generated successfully!'') w5 = (Returned, w6)"
       "print E (CHR 0x0A # ''Generated files:'') w6 = (Returned, w7)"
    using pr(3,4,5) by (simp_all add: print_Returned w5_def w6_def w7_def)
  have li: "list_icons E ICON_SIZES w7 = (Returned, w8)"
    using pr(6) by (simp add: list_icons_Returned w8_def)
  have "w' = w8\<lparr>trace := trace w8 @ [Print ''  - favicon.ico'']\<rparr>"
    unfolding w' w8_def w7_def w6_def w5_def w4_def w3_def w2_def map_upds_snoc [OF len, symmetric]
    by (simp add: run_trace_def)
  with pr(7) have fin: "print E ''  - favicon.ico'' w8 = (Returned, w')"
    by (simp add: print_Returned)
  show ?lhs
    unfolding generate_all_icons_def
    by (simp add: e b l f sv p li fin and_then_step)
qed

lemma icon_filenames:
  "map icon_filename ICON_SIZES =
     [''icons/icon-72x72.png'', ''icons/icon-96x96.png'', ''icons/icon-128x128.png'',
      ''icons/icon-144x144.png'', ''icons/icon-152x152.png'', ''icons/icon-192x192.png'',
      ''icons/icon-384x384.png'', ''icons/icon-512x512.png'']"
  by (simp add: ICON_SIZES_def icon_filename_def str_def str_nat.simps)

lemma saves_append: "saves (a @ b) = saves a @ saves b"
  by (induction a rule: saves.induct) simp_all

lemma saves_prints: "saves (map (\<lambda>s. Print (f s)) xs) = []"
  by (induction xs) simp_all

lemma saves_icon_trace:
  "length ss = length icons \<Longrightarrow>
   saves (icon_trace ss icons) = zip (map icon_filename ss) (map (Pair ''PNG'') icons)"
  by (induction ss icons rule: list_induct2) simp_all

lemma saves_run_trace:
  "length icons = length ICON_SIZES \<Longrightarrow>
   saves (run_trace icons favicon) =
     zip (map icon_filename ICON_SIZES) (map (Pair ''PNG'') icons) @ [(''favicon.ico'', ''ICO'', favicon)]"
  by (simp add: run_trace_def saves_append saves_prints saves_icon_trace)

lemma ensure_icons_dir_trace:
  "ensure_icons_dir E w = (Returned, w1) \<Longrightarrow>
   \<exists>pre. trace w1 = trace w @ pre \<and> saves pre = [] \<and> stdout pre = []"
  by (auto simp: ensure_icons_dir_Returned split: if_splits)

lemma created_icons:
  "map (create_icon E) ICON_SIZES = map Inr icons \<longleftrightarrow>
     (\<exists>i72 i96 i128 i144 i152 i192 i384 i512.
        icons = [i72, i96, i128, i144, i152, i192, i384, i512] \<and>
        create_icon E 72 = Inr i72 \<and> create_icon E 96 = Inr i96 \<and>
        create_icon E 128 = Inr i128 \<and> create_icon E 144 = Inr i144 \<and>
        create_icon E 152 = Inr i152 \<and> create_icon E 192 = Inr i192 \<and>
        create_icon E 384 = Inr i384 \<and> create_icon E 512 = Inr i512)"
  by (auto simp: ICON_SIZES_def Cons_eq_map_conv)

lemma all_Inr_map: "\<forall>s \<in> set ss. \<exists>i. f s = Inr i \<Longrightarrow> \<exists>icons. map f ss = map Inr icons"
proof (induction ss)
  case Nil
  then show ?case by simp
next
  case (Cons s ss)
  then obtain i icons where "f s = Inr i" "map f ss = map Inr icons" by auto
  then have "map f (s # ss) = map Inr (i # icons)" by simp
  then show ?case by blast
qed

lemma generate_all_icons_returns:
  assumes "\<forall>s \<in> set (32 # ICON_SIZES). \<exists>img. create_icon E s = Inr img"
    and "\<forall>s \<in> set ICON_SIZES. save_error E (icon_filename s) ''PNG'' = None"
    and "save_error E ''favicon.ico'' ''ICO'' = None"
    and "\<forall>line \<in> set run_lines. print_error E line = None"
    and "''icons'' \<in> dirs w \<or> \<not> os_path_exists w ''icons'' \<and> makedirs_error E ''icons'' = None"
  shows "\<exists>w'. generate_all_icons E w = (Returned, w')"
proof -
  from assms(1) obtain icons where i: "map (create_icon E) ICON_SIZES = map Inr icons"
    using all_Inr_map [of ICON_SIZES "create_icon E"] by auto
  from assms(1) obtain favicon where f: "create_icon E 32 = Inr favicon" by auto
  from assms(5) obtain w1 where e: "ensure_icons_dir E w = (Returned, w1)" "''icons'' \<in> dirs w1"
    by (auto simp: ensure_icons_dir_Returned os_path_exists_def)
  with i f assms(2,3,4) show ?thesis unfolding generate_all_icons_Returned by blast
qed

lemma create_icon_env:
  assumes "new_error E' = new_error E" "truetype_error E' = truetype_error E"
    "load_default_error E' = load_default_error E" "textbbox E' = textbbox E"
    "text_error E' = text_error E" "rectangle_error E' = rectangle_error E"
  shows "create_icon E' s = create_icon E s"
proof -
  have a: "Image_new E' = Image_new E" by (simp add: fun_eq_iff Image_new_def assms)
  have t: "truetype E' = truetype E" by (simp add: fun_eq_iff truetype_def assms)
  have l: "load_default E' = load_default E" by (simp add: load_default_def assms)
  have b: "select_font E' = select_font E" unfolding fun_eq_iff select_font_def t l by simp
  have c: "draw_text E' = draw_text E" by (simp add: fun_eq_iff draw_text_def assms)
  have d: "draw_rectangle E' = draw_rectangle E" by (simp add: fun_eq_iff draw_rectangle_def assms)
  show ?thesis unfolding create_icon_def a b c d assms(4) ..
qed


lemma create_icon_makedirs_error: "create_icon (E\<lparr>makedirs_error := f\<rparr>) s = create_icon E s"
  by (rule create_icon_env) simp_all

lemma example_env_creates:
  "0 < s \<Longrightarrow> s < 2 ^ 31 \<Longrightarrow> \<exists>img. create_icon example_env s = Inr img"
  by (rule create_icon_returns [OF example_env_c_int_sizes]) (auto simp: example_env_def split: font.splits)

lemma example_env_creates_all:
  "\<forall>s \<in> set (32 # ICON_SIZES). \<exists>img. create_icon example_env s = Inr img"
  by (auto simp: ICON_SIZES_def intro!: example_env_creates)

lemma example_run:
  "''icons'' \<in> dirs w \<or> \<not> os_path_exists w ''icons'' \<Longrightarrow>
   \<exists>w'. generate_all_icons example_env w = (Returned, w')"
  by (rule generate_all_icons_returns [OF example_env_creates_all]) (auto simp: example_env_def)

text \<open>
  Claim C1. A run of \<open>generate_all_icons\<close> that returns has saved nine files and no
  other, in this order: \<open>icons/icon-{size}x{size}.png\<close> in the format PNG for the sizes
  72, 96, 128, 144, 152, 192, 384 and 512, each from \<open>create_icon\<close> at that size, then
  \<open>favicon.ico\<close> in the format ICO from \<open>create_icon(32)\<close>. The files of the world
  afterwards are those of before with these nine written.
\<close>

theorem generate_all_icons_files:
  assumes "generate_all_icons E w = (Returned, w')"
  shows "\<exists>i72 i96 i128 i144 i152 i192 i384 i512 favicon new.
     create_icon E 72 = Inr i72 \<and> create_icon E 96 = Inr i96 \<and>
     create_icon E 128 = Inr i128 \<and> create_icon E 144 = Inr i144 \<and>
     create_icon E 152 = Inr i152 \<and> create_icon E 192 = Inr i192 \<and>
     create_icon E 384 = Inr i384 \<and> create_icon E 512 = Inr i512 \<and>
     create_icon E 32 = Inr favicon \<and>
     trace w' = trace w @ new \<and>
     saves new =
       [(''icons/icon-72x72.png'', ''PNG'', i72), (''icons/icon-96x96.png'', ''PNG'', i96),
        (''icons/icon-128x128.png'', ''PNG'', i128), (''icons/icon-144x144.png'', ''PNG'', i144),
        (''icons/icon-152x152.png'', ''PNG'', i152), (''icons/icon-192x192.png'', ''PNG'', i192),
        (''icons/icon-384x384.png'', ''PNG'', i384), (''icons/icon-512x512.png'', ''PNG'', i512),
        (''favicon.ico'', ''ICO'', favicon)] \<and>
     files w' = (files w)
       (''icons/icon-72x72.png'' \<mapsto> (''PNG'', i72), ''icons/icon-96x96.png'' \<mapsto> (''PNG'', i96),
        ''icons/icon-128x128.png'' \<mapsto> (''PNG'', i128), ''icons/icon-144x144.png'' \<mapsto> (''PNG'', i144),
        ''icons/icon-152x152.png'' \<mapsto> (''PNG'', i152), ''icons/icon-192x192.png'' \<mapsto> (''PNG'', i192),
        ''icons/icon-384x384.png'' \<mapsto> (''PNG'', i384), ''icons/icon-512x512.png'' \<mapsto> (''PNG'', i512),
        ''favicon.ico'' \<mapsto> (''ICO'', favicon))"
proof -
  from assms obtain w1 icons favicon where
    e: "ensure_icons_dir E w = (Returned, w1)" and
    i: "map (create_icon E) ICON_SIZES = map Inr icons" and
    f: "create_icon E 32 = Inr favicon" and
    w': "w' = w1\<lparr>files := (files w1)(map icon_filename ICON_SIZES @ [''favicon.ico'']
                              [\<mapsto>] map (Pair ''PNG'') icons @ [(''ICO'', favicon)]),
                trace := trace w1 @ run_trace icons favicon\<rparr>"
    unfolding generate_all_icons_Returned by blast
  from e obtain pre where pre: "trace w1 = trace w @ pre" "saves pre = []"
    using ensure_icons_dir_trace by blast
  have fl: "files w1 = files w" using e by (rule ensure_icons_dir_files)
  from i obtain i72 i96 i128 i144 i152 i192 i384 i512 where
    icons: "icons = [i72, i96, i128, i144, i152, i192, i384, i512]" and
    c: "create_icon E 72 = Inr i72" "create_icon E 96 = Inr i96"
       "create_icon E 128 = Inr i128" "create_icon E 144 = Inr i144"
       "create_icon E 152 = Inr i152" "create_icon E 192 = Inr i192"
       "create_icon E 384 = Inr i384" "create_icon E 512 = Inr i512"
    unfolding created_icons by blast
  have len: "length icons = length ICON_SIZES" by (simp add: icons ICON_SIZES_def)
  have t: "trace w' = trace w @ (pre @ run_trace icons favicon)" by (simp add: w' pre(1))
  have s: "saves (pre @ run_trace icons favicon) =
       [(''icons/icon-72x72.png'', ''PNG'', i72), (''icons/icon-96x96.png'', ''PNG'', i96),
        (''icons/icon-128x128.png'', ''PNG'', i128), (''icons/icon-144x144.png'', ''PNG'', i144),
        (''icons/icon-152x152.png'', ''PNG'', i152), (''icons/icon-192x192.png'', ''PNG'', i192),
        (''icons/icon-384x384.png'', ''PNG'', i384), (''icons/icon-512x512.png'', ''PNG'', i512),
        (''favicon.ico'', ''ICO'', favicon)]"
    unfolding saves_append pre(2) saves_run_trace [OF len] icon_filenames by (simp add: icons)
  have m: "files w' = (files w)
       (''icons/icon-72x72.png'' \<mapsto> (''PNG'', i72), ''icons/icon-96x96.png'' \<mapsto> (''PNG'', i96),
        ''icons/icon-128x128.png'' \<mapsto> (''PNG'', i128), ''icons/icon-144x144.png'' \<mapsto> (''PNG'', i144),
        ''icons/icon-152x152.png'' \<mapsto> (''PNG'', i152), ''icons/icon-192x192.png'' \<mapsto> (''PNG'', i192),
        ''icons/icon-384x384.png'' \<mapsto> (''PNG'', i384), ''icons/icon-512x512.png'' \<mapsto> (''PNG'', i512),
        ''favicon.ico'' \<mapsto> (''ICO'', favicon))"
    unfolding w' fl icon_filenames icons by simp
  from c f t s m show ?thesis by blast
qed

theorem generate_all_icons_files_witness:
  "\<exists>w'. generate_all_icons example_env empty_world = (Returned, w') \<and>
     map fst (saves (trace w')) =
       [''icons/icon-72x72.png'', ''icons/icon-96x96.png'', ''icons/icon-128x128.png'',
        ''icons/icon-144x144.png'', ''icons/icon-152x152.png'', ''icons/icon-192x192.png'',
        ''icons/icon-384x384.png'', ''icons/icon-512x512.png'', ''favicon.ico''] \<and>
     dom (files w') =
       {''icons/icon-72x72.png'', ''icons/icon-96x96.png'', ''icons/icon-128x128.png'',
        ''icons/icon-144x144.png'', ''icons/icon-152x152.png'', ''icons/icon-192x192.png'',
        ''icons/icon-384x384.png'', ''icons/icon-512x512.png'', ''favicon.ico''}"
proof -
  have "\<not> os_path_exists empty_world ''icons''" by (simp add: os_path_exists_def empty_world_def)
  then obtain w' where run: "generate_all_icons example_env empty_world = (Returned, w')"
    using example_run [of empty_world] by blast
  from generate_all_icons_files [OF run]
  obtain i72 i96 i128 i144 i152 i192 i384 i512 favicon new where
    t: "trace w' = trace empty_world @ new" and
    s: "saves new =
       [(''icons/icon-72x72.png'', ''PNG'', i72), (''icons/icon-96x96.png'', ''PNG'', i96),
        (''icons/icon-128x128.png'', ''PNG'', i128), (''icons/icon-144x144.png'', ''PNG'', i144),
        (''icons/icon-152x152.png'', ''PNG'', i152), (''icons/icon-192x192.png'', ''PNG'', i192),
        (''icons/icon-384x384.png'', ''PNG'', i384), (''icons/icon-512x512.png'', ''PNG'', i512),
        (''favicon.ico'', ''ICO'', favicon)]" and
    f: "files w' = (files empty_world)
       (''icons/icon-72x72.png'' \<mapsto> (''PNG'', i72), ''icons/icon-96x96.png'' \<mapsto> (''PNG'', i96),
        ''icons/icon-128x128.png'' \<mapsto> (''PNG'', i128), ''icons/icon-144x144.png'' \<mapsto> (''PNG'', i144),
        ''icons/icon-152x152.png'' \<mapsto> (''PNG'', i152), ''icons/icon-192x192.png'' \<mapsto> (''PNG'', i192),
        ''icons/icon-384x384.png'' \<mapsto> (''PNG'', i384), ''icons/icon-512x512.png'' \<mapsto> (''PNG'', i512),
        ''favicon.ico'' \<mapsto> (''ICO'', favicon))"
    by blast
  have "trace w' = new" using t by (simp add: empty_world_def)
  moreover have "dom (files w') =
       {''icons/icon-72x72.png'', ''icons/icon-96x96.png'', ''icons/icon-128x128.png'',
        ''icons/icon-144x144.png'', ''icons/icon-152x152.png'', ''icons/icon-192x192.png'',
        ''icons/icon-384x384.png'', ''icons/icon-512x512.png'', ''favicon.ico''}"
    unfolding f by (auto simp: empty_world_def)
  ultimately show ?thesis using run s by simp
qed




lemma create_icon_agree:
  assumes "create_icon E1 s = Inr i1" and "create_icon E2 s = Inr i2"
    and "\<forall>pt. font_size s = Inr pt \<longrightarrow> select_font E1 pt = select_font E2 pt \<and>
           (\<forall>fnt. select_font E1 pt = Inr fnt \<longrightarrow>
              textbbox E1 (0, 0) glyph fnt = textbbox E2 (0, 0) glyph fnt)"
  shows "i1 = i2"
proof -
  from assms(1) obtain pt fnt b0 b1 b2 b3 where
    a: "font_size s = Inr pt" "select_font E1 pt = Inr fnt"
       "textbbox E1 (0, 0) glyph fnt = Inr (b0, b1, b2, b3)"
       "i1 = \<lparr>mode = ''RGB'', dimensions = (s, s), color = ''#0077b5'',
              ops = [Text ((s - (b2 - b0)) div 2, (s - (b3 - b1)) div 2 - b1) glyph ''white'' fnt,
                     Rectangle [0, 0, s - 1, s - 1] ''#005582'' (max 1 (s div 64))]\<rparr>"
    unfolding create_icon_Inr by blast
  from assms(2) obtain pt' fnt' c0 c1 c2 c3 where
    b: "font_size s = Inr pt'" "select_font E2 pt' = Inr fnt'"
       "textbbox E2 (0, 0) glyph fnt' = Inr (c0, c1, c2, c3)"
       "i2 = \<lparr>mode = ''RGB'', dimensions = (s, s), color = ''#0077b5'',
              ops = [Text ((s - (c2 - c0)) div 2, (s - (c3 - c1)) div 2 - c1) glyph ''white'' fnt',
                     Rectangle [0, 0, s - 1, s - 1] ''#005582'' (max 1 (s div 64))]\<rparr>"
    unfolding create_icon_Inr by blast
  from a(1) b(1) have pt: "pt' = pt" by simp
  from assms(3) a(1) have "select_font E1 pt = select_font E2 pt" by blast
  with a(2) b(2) have fnt: "fnt' = fnt" by (simp add: pt)
  from assms(3) a(1,2) have "textbbox E1 (0, 0) glyph fnt = textbbox E2 (0, 0) glyph fnt" by blast
  with a(3) b(3) have "(c0, c1, c2, c3) = (b0, b1, b2, b3)" by (simp add: fnt)
  with a(4) b(4) fnt show ?thesis by simp
qed

lemma map_Inr_D: "map f ss = map Inr icons \<Longrightarrow> s \<in> set ss \<Longrightarrow> \<exists>i. f s = Inr i"
  by (induction ss arbitrary: icons) (auto simp: Cons_eq_map_conv)

lemma map_upds_same:
  assumes "length xs = length ys" and "p \<in> set xs"
  shows "(m(xs [\<mapsto>] ys)) p = (m'(xs [\<mapsto>] ys)) p \<and> (m(xs [\<mapsto>] ys)) p \<noteq> None"
proof -
  have "set (map fst (zip xs ys)) = set xs" using assms(1) by (simp only: map_fst_zip)
  then have "fst ` set (zip xs ys) = set xs" by simp
  with assms(2) have d: "p \<in> dom (map_of (rev (zip xs ys)))"
    by (simp add: dom_map_of_conv_image_fst)
  then have "(n(xs [\<mapsto>] ys)) p = map_of (rev (zip xs ys)) p" for n :: "'a \<rightharpoonup> 'b"
    unfolding map_upds_def by (rule map_add_dom_app_simps(1))
  with d show ?thesis by (simp add: domIff)
qed

text \<open>
  Claim C9. Two runs that return, in environments where the font chosen at each size and
  the box measured for the glyph are the same, save the same nine files with the same
  contents in the same order, whatever the two working directories held before and
  whatever else differs between the two environments. A file's content is the format and
  the image handed to the library's writer.
\<close>

theorem generate_all_icons_deterministic:
  assumes "generate_all_icons E1 w1 = (Returned, w1')"
    and "generate_all_icons E2 w2 = (Returned, w2')"
    and "\<forall>s \<in> set (32 # ICON_SIZES). \<forall>pt. font_size s = Inr pt \<longrightarrow>
           select_font E1 pt = select_font E2 pt \<and>
           (\<forall>fnt. select_font E1 pt = Inr fnt \<longrightarrow>
              textbbox E1 (0, 0) glyph fnt = textbbox E2 (0, 0) glyph fnt)"
  shows "\<exists>new1 new2.
           trace w1' = trace w1 @ new1 \<and> trace w2' = trace w2 @ new2 \<and>
           saves new1 = saves new2 \<and> length (saves new1) = 9 \<and>
           (\<forall>p \<in> set (map icon_filename ICON_SIZES @ [''favicon.ico'']).
              files w1' p = files w2' p \<and> files w1' p \<noteq> None)"
proof -
  from assms(1) obtain v1 icons1 favicon1 where
    e1: "ensure_icons_dir E1 w1 = (Returned, v1)" and
    i1: "map (create_icon E1) ICON_SIZES = map Inr icons1" and
    f1: "create_icon E1 32 = Inr favicon1" and
    w1': "w1' = v1\<lparr>files := (files v1)(map icon_filename ICON_SIZES @ [''favicon.ico'']
                              [\<mapsto>] map (Pair ''PNG'') icons1 @ [(''ICO'', favicon1)]),
                trace := trace v1 @ run_trace icons1 favicon1\<rparr>"
    unfolding generate_all_icons_Returned by blast
  from assms(2) obtain v2 icons2 favicon2 where
    e2: "ensure_icons_dir E2 w2 = (Returned, v2)" and
    i2: "map (create_icon E2) ICON_SIZES = map Inr icons2" and
    f2: "create_icon E2 32 = Inr favicon2" and
    w2': "w2' = v2\<lparr>files := (files v2)(map icon_filename ICON_SIZES @ [''favicon.ico'']
                              [\<mapsto>] map (Pair ''PNG'') icons2 @ [(''ICO'', favicon2)]),
                trace := trace v2 @ run_trace icons2 favicon2\<rparr>"
    unfolding generate_all_icons_Returned by blast
  have fav: "favicon1 = favicon2" using f1 f2 assms(3) by (intro create_icon_agree [of E1 32 _ E2]) simp_all
  have "create_icon E1 s = create_icon E2 s" if "s \<in> set ICON_SIZES" for s
  proof -
    from map_Inr_D [OF i1 that] obtain a where a: "create_icon E1 s = Inr a" ..
    from map_Inr_D [OF i2 that] obtain b where b: "create_icon E2 s = Inr b" ..
    from a b have "a = b" using assms(3) that by (intro create_icon_agree [of E1 s _ E2]) simp_all
    with a b show ?thesis by simp
  qed
  then have "map (create_icon E1) ICON_SIZES = map (create_icon E2) ICON_SIZES" by simp
  with i1 i2 have "map Inr icons1 = (map Inr icons2 :: (exn + image) list)" by simp
  then have icons: "icons1 = icons2" by (simp add: inj_map_eq_map)
  from e1 obtain pre1 where pre1: "trace v1 = trace w1 @ pre1" "saves pre1 = []"
    using ensure_icons_dir_trace by blast
  from e2 obtain pre2 where pre2: "trace v2 = trace w2 @ pre2" "saves pre2 = []"
    using ensure_icons_dir_trace by blast
  have len: "length icons2 = length ICON_SIZES" using i2 by (rule length_created)
  have t1: "trace w1' = trace w1 @ (pre1 @ run_trace icons2 favicon2)"
    by (simp add: w1' pre1(1) icons fav)
  have t2: "trace w2' = trace w2 @ (pre2 @ run_trace icons2 favicon2)"
    by (simp add: w2' pre2(1))
  have s: "saves (pre1 @ run_trace icons2 favicon2) = saves (pre2 @ run_trace icons2 favicon2)"
    by (simp add: saves_append pre1(2) pre2(2))
  have n: "length (saves (pre1 @ run_trace icons2 favicon2)) = 9"
    by (simp add: saves_append pre1(2) saves_run_trace [OF len] len) (simp add: ICON_SIZES_def)
  have l: "length (map icon_filename ICON_SIZES @ [''favicon.ico'']) =
      length (map (Pair ''PNG'') icons2 @ [(''ICO'', favicon2)])"
    by (simp add: len)
  have f: "\<forall>p \<in> set (map icon_filename ICON_SIZES @ [''favicon.ico'']).
      files w1' p = files w2' p \<and> files w1' p \<noteq> None"
    unfolding w1' w2' icons fav using map_upds_same [OF l] by simp
  from t1 t2 s n f show ?thesis by blast
qed

theorem generate_all_icons_deterministic_witness:
  "\<exists>w1' w2'.
     generate_all_icons example_env empty_world = (Returned, w1') \<and>
     generate_all_icons read_only_env prepared_world = (Returned, w2') \<and>
     saves (trace w1') = saves (trace w2') \<and>
     files w1' ''icons/icon-512x512.png'' = files w2' ''icons/icon-512x512.png'' \<and>
     files w1' ''favicon.ico'' = files w2' ''favicon.ico'' \<and>
     files w1' ''favicon.ico'' \<noteq> None"
proof -
  have "\<not> os_path_exists empty_world ''icons''" by (simp add: os_path_exists_def empty_world_def)
  then obtain w1' where run1: "generate_all_icons example_env empty_world = (Returned, w1')"
    using example_run [of empty_world] by blast
  have "\<forall>s \<in> set (32 # ICON_SIZES). \<exists>img. create_icon read_only_env s = Inr img"
    using example_env_creates_all by (simp add: read_only_env_def create_icon_makedirs_error)
  then have "\<exists>w'. generate_all_icons read_only_env prepared_world = (Returned, w')"
    by (rule generate_all_icons_returns)
      (simp_all add: read_only_env_def example_env_def prepared_world_def)
  then obtain w2' where run2: "generate_all_icons read_only_env prepared_world = (Returned, w2')" ..
  have same: "\<forall>s \<in> set (32 # ICON_SIZES). \<forall>pt. font_size s = Inr pt \<longrightarrow>
           select_font example_env pt = select_font read_only_env pt \<and>
           (\<forall>fnt. select_font example_env pt = Inr fnt \<longrightarrow>
              textbbox example_env (0, 0) glyph fnt = textbbox read_only_env (0, 0) glyph fnt)"
    by (simp add: select_font_tiers load_default_def read_only_env_def)
  from generate_all_icons_deterministic [OF run1 run2 same]
  obtain new1 new2 where
    t: "trace w1' = trace empty_world @ new1" "trace w2' = trace prepared_world @ new2"
       "saves new1 = saves new2" and
    f: "\<forall>p \<in> set (map icon_filename ICON_SIZES @ [''favicon.ico'']).
       files w1' p = files w2' p \<and> files w1' p \<noteq> None"
    by blast
  have s: "saves (trace w1') = saves (trace w2')"
    using t by (simp add: empty_world_def prepared_world_def)
  have "''icons/icon-512x512.png'' \<in> set (map icon_filename ICON_SIZES @ [''favicon.ico''])"
    by (simp add: icon_filenames)
  with f have a: "files w1' ''icons/icon-512x512.png'' = files w2' ''icons/icon-512x512.png''"
    by blast
  have "''favicon.ico'' \<in> set (map icon_filename ICON_SIZES @ [''favicon.ico''])" by simp
  with f have b: "files w1' ''favicon.ico'' = files w2' ''favicon.ico''"
    "files w1' ''favicon.ico'' \<noteq> None"
    by blast+
  from run1 run2 s a b show ?thesis by blast
qed

subsection \<open>Failures and the entry point\<close>

text \<open>
  Claim C5. On a machine where Pillow cannot be imported, the import of line 8 raises
  before the \<open>try\<close> of line 78 is entered: the program ends with the ImportError
  uncaught, nothing printed and nothing written. No file is written, as the claim says,
  but the instruction to install the library is never printed.
\<close>

theorem missing_library_not_reported:
  "script (E\<lparr>pil_importable := False\<rparr>) w = (Raised (ImportError ''No module named PIL''), w)"
  by (simp add: script_def)




lemma main_Exception:
  "generate_all_icons E w = (Raised (Exception m), w1) \<Longrightarrow>
   \<forall>line \<in> set (failure_lines m). print_error E line = None \<Longrightarrow>
   main E w = (Returned, w1\<lparr>trace := trace w1 @ map Print (failure_lines m)\<rparr>)"
  by (simp add: main_def failure_lines_def print_ok and_then_step)



lemma icon_filename_72: "icon_filename 72 = ''icons/icon-72x72.png''"
  by (simp add: icon_filename_def str_def str_nat.simps)


lemma dirname_72: "dirname ''icons/icon-72x72.png'' = ''icons''"
  using dirname_icon_filename [of 72] by (simp only: icon_filename_72)




text \<open>
  An example of the report: where \<open>icons\<close> is a file, the directory step is skipped, the
  first save raises NotADirectoryError, and the handler prints the text of that error.
\<close>

lemma icons_is_a_file:
  "main example_env blocked_world =
     (Returned,
      blocked_world\<lparr>trace :=
        [Print (emoji_palette @ '' Generating LinkedInify icons...''),
         Print (emoji_cross @ '' Error generating icons: [Errno 20] Not a directory: ''
                  @ CHR 0x27 # ''icons/icon-72x72.png'' @ [CHR 0x27]),
         Print (CHR 0x0A # ''Alternative: Use online icon generators like:''),
         Print ''  - https://realfavicongenerator.net/'',
         Print ''  - https://www.favicon-generator.org/'',
         Print ''  - https://favicon.io/'']\<rparr>)"
proof -
  define wb where
    "wb = blocked_world\<lparr>trace := [Print (emoji_palette @ '' Generating LinkedInify icons...'')]\<rparr>"
  define m where
    "m = ''[Errno 20] Not a directory: '' @ CHR 0x27 # ''icons/icon-72x72.png'' @ [CHR 0x27]"
  have pr: "print_error example_env line = None" for line by (simp add: example_env_def)
  have e: "ensure_icons_dir example_env blocked_world = (Returned, blocked_world)"
    by (simp add: ensure_icons_dir_def os_path_exists_def blocked_world_def)
  have b: "print example_env (emoji_palette @ '' Generating LinkedInify icons...'') blocked_world
      = (Returned, wb)"
    by (simp add: print_ok pr wb_def blocked_world_def)
  have "not_a_directory_message example_env ''icons/icon-72x72.png'' = m"
    by (simp add: example_env_def m_def)
  then have s: "save example_env icon (icon_filename 72) ''PNG'' wb = (Raised (Exception m), wb)"
    for icon
    by (simp add: save_def dirname_72 icon_filename_72 wb_def blocked_world_def)
  have "save_icons example_env ICON_SIZES wb = (Raised (Exception m), wb)"
    by (simp add: ICON_SIZES_def example_icon_72 s)
  with e b have "generate_all_icons example_env blocked_world = (Raised (Exception m), wb)"
    by (simp add: generate_all_icons_def and_then_step)
  then have "main example_env blocked_world =
      (Returned, wb\<lparr>trace := trace wb @ map Print (failure_lines m)\<rparr>)"
    by (rule main_Exception) (simp add: pr)
  then show ?thesis by (simp add: wb_def m_def failure_lines_def)
qed






subsection \<open>The font fallback\<close>

lemma select_font_Inl:
  "select_font E pt = Inl err \<longleftrightarrow>
     truetype_error E ''arial.ttf'' pt \<noteq> None \<and>
     truetype_error E ''/System/Library/Fonts/Arial.ttf'' pt \<noteq> None \<and>
     load_default_error E = Some err"
  by (auto simp: select_font_tiers load_default_def split: option.splits)

lemma font_size_1: "font_size 1 = Inr 0"
  by (simp add: font_size_exact)

lemma font_size_2: "font_size 2 = Inr 0"
  by (simp add: font_size_exact)

lemma old_pillow_select_font: "select_font old_pillow_env pt = Inr DefaultFont"
  by (simp add: select_font_tiers load_default_def old_pillow_env_def example_env_def)

lemma old_pillow_textbbox:
  "textbbox old_pillow_env (0, 0) glyph DefaultFont
     = Inl (Exception ''Only supported for TrueType fonts'')"
  by (simp add: old_pillow_env_def)

lemma old_pillow_new_error:
  "0 \<le> s \<Longrightarrow> s < 2 ^ 31 \<Longrightarrow> new_error old_pillow_env ''RGB'' (s, s) ''#0077b5'' = None"
  by (simp add: old_pillow_env_def example_env_def)

lemma old_pillow_with_arial:
  "create_icon (old_pillow_env\<lparr>truetype_error := truetype_error example_env\<rparr>) 72 =
     Inr \<lparr>mode = ''RGB'', dimensions = (72, 72), color = ''#0077b5'',
          ops = [Text (22, 15) glyph ''white'' (FreeTypeFont ''arial.ttf'' 28),
                 Rectangle [0, 0, 71, 71] ''#005582'' 1]\<rparr>"
  by (simp add: create_icon_Inr font_size_72 select_font_tiers old_pillow_env_def example_env_def)

text \<open>
  Claim C6. The choice of the font tries the first named font, then the second, then the
  default font, and when both named lookups fail and \<open>load_default()\<close> returns, the font
  chosen is the default font. But the operation does not complete with it on every
  machine: where the default font cannot measure the glyph (the bitmap font that Pillow
  before 10.1 returns), \<open>draw.textbbox\<close> raises at line 35 and \<open>create_icon\<close> raises that
  exception, although \<open>Image.new\<close> and the font size succeeded and nothing is missing but
  the two named fonts.
\<close>

theorem default_font_cannot_measure:
  assumes "truetype_error E ''arial.ttf'' pt \<noteq> None"
    and "truetype_error E ''/System/Library/Fonts/Arial.ttf'' pt \<noteq> None"
    and "load_default_error E = None"
    and "new_error E ''RGB'' (size', size') ''#0077b5'' = None"
    and "font_size size' = Inr pt"
    and "textbbox E (0, 0) glyph DefaultFont = Inl err"
  shows "select_font E pt = Inr DefaultFont \<and> create_icon E size' = Inl err"
proof -
  have s: "select_font E pt = Inr DefaultFont"
    using assms(1,2,3) by (simp add: select_font_tiers load_default_def)
  then show ?thesis
    using assms(4,5,6) by (simp add: create_icon_def Image_new_def)
qed

theorem default_font_cannot_measure_witness:
  "truetype_error old_pillow_env ''arial.ttf'' 28 \<noteq> None \<and>
   truetype_error old_pillow_env ''/System/Library/Fonts/Arial.ttf'' 28 \<noteq> None \<and>
   load_default_error old_pillow_env = None \<and>
   new_error old_pillow_env ''RGB'' (72, 72) ''#0077b5'' = None \<and>
   font_size 72 = Inr 28 \<and>
   select_font old_pillow_env 28 = Inr DefaultFont \<and>
   create_icon old_pillow_env 72 = Inl (Exception ''Only supported for TrueType fonts'') \<and>
   create_icon (old_pillow_env\<lparr>truetype_error := truetype_error example_env\<rparr>) 72 =
     Inr \<lparr>mode = ''RGB'', dimensions = (72, 72), color = ''#0077b5'',
          ops = [Text (22, 15) glyph ''white'' (FreeTypeFont ''arial.ttf'' 28),
                 Rectangle [0, 0, 71, 71] ''#005582'' 1]\<rparr>"
proof -
  have t: "truetype_error old_pillow_env ''arial.ttf'' 28 \<noteq> None"
    "truetype_error old_pillow_env ''/System/Library/Fonts/Arial.ttf'' 28 \<noteq> None"
    by (simp_all add: old_pillow_env_def)
  have l: "load_default_error old_pillow_env = None"
    by (simp add: old_pillow_env_def example_env_def)
  have n: "new_error old_pillow_env ''RGB'' (72, 72) ''#0077b5'' = None"
    by (rule old_pillow_new_error) simp_all
  from default_font_cannot_measure [OF t l n font_size_72 old_pillow_textbbox]
  show ?thesis using t l n font_size_72 old_pillow_with_arial by simp
qed

text \<open>
  Claim C10 as stated fails: \<open>create_icon\<close> does not return an image for every positive
  size. At the size \<open>2 ^ 31\<close>, \<open>Image.new\<close> raises before any font is looked up. And at the
  size 2, where the font size is 0, on the machine without the named fonts whose default
  font cannot measure the glyph, both lookups fall through to the default font and the
  measurement of line 35 raises.
\<close>

theorem create_icon_not_total:
  "create_icon example_env 2147483648 = Inl (Exception ''bad image size'') \<and>
   font_size 2 = Inr 0 \<and>
   select_font old_pillow_env 0 = Inr DefaultFont \<and>
   create_icon old_pillow_env 2 = Inl (Exception ''Only supported for TrueType fonts'')"
proof -
  have "create_icon example_env 2147483648 = Inl (Exception ''bad image size'')"
    by (simp add: create_icon_def Image_new_def example_env_def)
  moreover have "create_icon old_pillow_env 2 = Inl (Exception ''Only supported for TrueType fonts'')"
    using old_pillow_new_error [of 2]
    by (simp add: create_icon_def Image_new_def font_size_2 old_pillow_select_font
        old_pillow_textbbox)
  ultimately show ?thesis by (simp add: font_size_2 old_pillow_select_font)
qed

text \<open>
  Claim C10, as amended. The font size is 0 at the sizes 1 and 2. Whatever exception the
  first named font raises, of any class, the second named font is tried, and the default
  font after it; the choice of the font raises only what \<open>load_default()\<close> raises after
  both lookups have failed. \<open>create_icon\<close> returns an image exactly when \<open>Image.new\<close>
  accepts the size, the font size is computed, a font is chosen, and measuring the glyph
  with that font, drawing it and drawing the border raise nothing. At the sizes 1 and 2 on
  a machine where both named lookups refuse the point size 0, an image that is returned
  has its glyph drawn with the default font.
\<close>

theorem bare_except_falls_through:
  "font_size 1 = Inr 0 \<and> font_size 2 = Inr 0 \<and>
   (truetype_error E ''arial.ttf'' pt = Some e1 \<longrightarrow>
      select_font E pt =
        (case truetype_error E ''/System/Library/Fonts/Arial.ttf'' pt of
           None \<Rightarrow> Inr (FreeTypeFont ''/System/Library/Fonts/Arial.ttf'' pt)
         | Some e2 \<Rightarrow> load_default E)) \<and>
   (select_font E pt = Inl err \<longleftrightarrow>
      truetype_error E ''arial.ttf'' pt \<noteq> None \<and>
      truetype_error E ''/System/Library/Fonts/Arial.ttf'' pt \<noteq> None \<and>
      load_default_error E = Some err) \<and>
   ((\<exists>img. create_icon E size' = Inr img) \<longleftrightarrow>
      new_error E ''RGB'' (size', size') ''#0077b5'' = None \<and>
      (\<exists>p fnt b0 b1 b2 b3.
         font_size size' = Inr p \<and> select_font E p = Inr fnt \<and>
         textbbox E (0, 0) glyph fnt = Inr (b0, b1, b2, b3) \<and>
         text_error E ((size' - (b2 - b0)) div 2, (size' - (b3 - b1)) div 2 - b1) glyph fnt
           = None \<and>
         rectangle_error E [0, 0, size' - 1, size' - 1] (max 1 (size' div 64)) = None)) \<and>
   ((size' = 1 \<or> size' = 2) \<and>
    truetype_error E ''arial.ttf'' 0 \<noteq> None \<and>
    truetype_error E ''/System/Library/Fonts/Arial.ttf'' 0 \<noteq> None \<and>
    create_icon E size' = Inr img \<longrightarrow>
      (\<exists>xy. hd (ops img) = Text xy glyph ''white'' DefaultFont))"
proof (intro conjI impI)
  show "font_size 1 = Inr 0" by (rule font_size_1)
  show "font_size 2 = Inr 0" by (rule font_size_2)
next
  assume "truetype_error E ''arial.ttf'' pt = Some e1"
  then show "select_font E pt =
        (case truetype_error E ''/System/Library/Fonts/Arial.ttf'' pt of
           None \<Rightarrow> Inr (FreeTypeFont ''/System/Library/Fonts/Arial.ttf'' pt)
         | Some e2 \<Rightarrow> load_default E)"
    by (simp add: select_font_tiers split: option.splits)
next
  show "select_font E pt = Inl err \<longleftrightarrow>
      truetype_error E ''arial.ttf'' pt \<noteq> None \<and>
      truetype_error E ''/System/Library/Fonts/Arial.ttf'' pt \<noteq> None \<and>
      load_default_error E = Some err"
    by (rule select_font_Inl)
next
  show "(\<exists>img. create_icon E size' = Inr img) \<longleftrightarrow>
      new_error E ''RGB'' (size', size') ''#0077b5'' = None \<and>
      (\<exists>p fnt b0 b1 b2 b3.
         font_size size' = Inr p \<and> select_font E p = Inr fnt \<and>
         textbbox E (0, 0) glyph fnt = Inr (b0, b1, b2, b3) \<and>
         text_error E ((size' - (b2 - b0)) div 2, (size' - (b3 - b1)) div 2 - b1) glyph fnt
           = None \<and>
         rectangle_error E [0, 0, size' - 1, size' - 1] (max 1 (size' div 64)) = None)"
    unfolding create_icon_Inr by blast
next
  assume a: "(size' = 1 \<or> size' = 2) \<and>
    truetype_error E ''arial.ttf'' 0 \<noteq> None \<and>
    truetype_error E ''/System/Library/Fonts/Arial.ttf'' 0 \<noteq> None \<and>
    create_icon E size' = Inr img"
  then have pt: "font_size size' = Inr 0" using font_size_1 font_size_2 by auto
  from a obtain p fnt xy where
    "font_size size' = Inr p" "select_font E p = Inr fnt"
    "ops img = [Text xy glyph ''white'' fnt,
                Rectangle [0, 0, size' - 1, size' - 1] ''#005582'' (max 1 (size' div 64))]"
    by (auto simp: create_icon_Inr)
  with pt a have "fnt = DefaultFont" "hd (ops img) = Text xy glyph ''white'' fnt"
    by (auto simp: select_font_tiers load_default_def split: option.splits)
  then show "\<exists>xy. hd (ops img) = Text xy glyph ''white'' DefaultFont" by blast
qed

theorem bare_except_falls_through_witness:
  "truetype_error no_fonts_env ''arial.ttf'' 28
     = Some (ImportError ''The _imagingft C module is not installed'') \<and>
   select_font no_fonts_env 28 = load_default no_fonts_env \<and>
   truetype_error example_env ''arial.ttf'' 0
     = Some (Exception ''font size must be greater than 0'') \<and>
   (\<exists>img xy. create_icon example_env 2 = Inr img \<and>
      hd (ops img) = Text xy glyph ''white'' DefaultFont)"
proof -
  have t: "truetype_error no_fonts_env ''arial.ttf'' 28
     = Some (ImportError ''The _imagingft C module is not installed'')"
    by (simp add: no_fonts_env_def)
  have t2: "truetype_error no_fonts_env ''/System/Library/Fonts/Arial.ttf'' 28
     = Some (Exception ''cannot open resource'')"
    by (simp add: no_fonts_env_def)
  have t0: "truetype_error example_env ''arial.ttf'' 0
     = Some (Exception ''font size must be greater than 0'')"
    by (simp add: example_env_def)
  have t0': "truetype_error example_env ''/System/Library/Fonts/Arial.ttf'' 0 \<noteq> None"
    by (simp add: example_env_def)
  obtain img where img: "create_icon example_env 2 = Inr img"
    using example_env_creates [of 2] by auto
  from bare_except_falls_through
    [THEN conjunct2, THEN conjunct2, THEN conjunct1, THEN mp, OF t]
  have s: "select_font no_fonts_env 28 = load_default no_fonts_env" by (simp add: t2)
  have hyp: "((2::int) = 1 \<or> (2::int) = 2) \<and>
    truetype_error example_env ''arial.ttf'' 0 \<noteq> None \<and>
    truetype_error example_env ''/System/Library/Fonts/Arial.ttf'' 0 \<noteq> None \<and>
    create_icon example_env 2 = Inr img"
    using t0 t0' img by simp
  from bare_except_falls_through
    [THEN conjunct2, THEN conjunct2, THEN conjunct2, THEN conjunct2, THEN conjunct2,
     THEN mp, OF hyp]
  have "\<exists>xy. hd (ops img) = Text xy glyph ''white'' DefaultFont" .
  with img t s t0 show ?thesis by blast
qed

end
